theory Spec2Isabelle
  imports Main "HOL-Library.Sublist"
begin

section \<open>Strings as the checker uses them\<close>

text \<open>
  Python strings are modelled as \<open>string\<close> (lists of characters) over ASCII text.
  \<open>str.lower\<close> and \<open>str.upper\<close> change the 26 Latin letters and nothing else;
  the test \<open>a in b\<close> on strings is \<^const>\<open>sublist\<close>, the contiguous-substring test.
\<close>

definition upper_letters :: string where
  "upper_letters = ''ABCDEFGHIJKLMNOPQRSTUVWXYZ''"

definition lower_letters :: string where
  "lower_letters = ''abcdefghijklmnopqrstuvwxyz''"

definition lower_char :: "char \<Rightarrow> char" where
  "lower_char c = (case map_of (zip upper_letters lower_letters) c of Some d \<Rightarrow> d | None \<Rightarrow> c)"

definition upper_char :: "char \<Rightarrow> char" where
  "upper_char c = (case map_of (zip lower_letters upper_letters) c of Some d \<Rightarrow> d | None \<Rightarrow> c)"

definition lower :: "string \<Rightarrow> string" where
  "lower s = map lower_char s"

definition upper :: "string \<Rightarrow> string" where
  "upper s = map upper_char s"

text \<open>\<open>any(k.lower() in text_lower for k in keywords)\<close>\<close>

definition any_keyword_lower :: "string list \<Rightarrow> string \<Rightarrow> bool" where
  "any_keyword_lower keywords text_lower = list_ex (\<lambda>k. sublist (lower k) text_lower) keywords"

text \<open>\<open>any(k in text_upper for k in keywords)\<close>\<close>

definition any_keyword :: "string list \<Rightarrow> string \<Rightarrow> bool" where
  "any_keyword keywords text_upper = list_ex (\<lambda>k. sublist k text_upper) keywords"

subsection \<open>Rendering integers\<close>

definition digit_char :: "nat \<Rightarrow> char" where
  "digit_char d = ''0123456789'' ! (d mod 10)"

fun str_nat :: "nat \<Rightarrow> string" where
  "str_nat n = (if n < 10 then [digit_char n] else str_nat (n div 10) @ [digit_char (n mod 10)])"

declare str_nat.simps [simp del]

text \<open>The format \<open>{total:,}\<close>: decimal digits in groups of three, from the right.\<close>

fun str_nat_commas :: "nat \<Rightarrow> string" where
  "str_nat_commas n =
     (if n < 1000 then str_nat n
      else str_nat_commas (n div 1000) @ '','' @
           [digit_char (n div 100 mod 10), digit_char (n div 10 mod 10), digit_char (n mod 10)])"

declare str_nat_commas.simps [simp del]

subsection \<open>The format \<open>{total/1000000:.1f}\<close>\<close>

text \<open>
  \<open>total / 1000000\<close> is the double nearest to the quotient (53 significant bits, ties to
  even), and \<open>.1f\<close> prints the decimal with one fractional digit nearest to the exact
  value of that double (ties to even). \<open>round_half_even a b\<close> is the integer nearest to
  \<open>a / b\<close>.
\<close>

definition round_half_even :: "nat \<Rightarrow> nat \<Rightarrow> nat" where
  "round_half_even a b =
     (let q = a div b; r = a mod b
      in if 2 * r < b then q else if b < 2 * r then q + 1 else if even q then q else q + 1)"

fun bit_length :: "nat \<Rightarrow> nat" where
  "bit_length n = (if n = 0 then 0 else Suc (bit_length (n div 2)))"

declare bit_length.simps [simp del]

text \<open>
  For \<open>n / d \<ge> 1\<close>: the double nearest to \<open>n / d\<close>, as a fraction (numerator,
  denominator). With \<open>k = bit_length (n div d)\<close> the quotient lies in \<open>[2^(k-1), 2^k)\<close>, so
  the mantissa is the quotient scaled by \<open>2^(53-k)\<close> and rounded.
\<close>

definition double_of_ratio :: "nat \<Rightarrow> nat \<Rightarrow> nat \<times> nat" where
  "double_of_ratio n d =
     (let k = bit_length (n div d)
      in if k \<le> 53 then (round_half_even (n * 2 ^ (53 - k)) d, 2 ^ (53 - k))
         else (round_half_even n (d * 2 ^ (k - 53)) * 2 ^ (k - 53), 1))"

definition format_1f :: "nat \<times> nat \<Rightarrow> string" where
  "format_1f x =
     (let tenths = round_half_even (10 * fst x) (snd x)
      in str_nat (tenths div 10) @ ''.'' @ [digit_char (tenths mod 10)])"

section \<open>Keyword checks on the text of a drawing\<close>

definition itar_keywords :: "string list" where
  "itar_keywords = [''ITAR'', ''export control'', ''EAR99'', ''22 CFR'',
     ''International Traffic in Arms'', ''export license'']"

definition check_itar_marking :: "string \<Rightarrow> bool" where
  "check_itar_marking text = any_keyword_lower itar_keywords (lower text)"

definition restricted_drawing :: "string list" where
  "restricted_drawing = [''beryllium copper'', ''cadmium'', ''mercury'', ''lead'',
     ''hexavalent chromium'', ''asbestos'']"

definition check_restricted_materials :: "string \<Rightarrow> string list" where
  "check_restricted_materials text =
     filter (\<lambda>material. sublist (lower material) (lower text)) restricted_drawing"

definition traceability_keywords :: "string list" where
  "traceability_keywords = [''serial number'', ''lot number'', ''batch'',
     ''traceability'', ''track'', ''S/N'', ''L/N'']"

definition check_traceability :: "string \<Rightarrow> bool" where
  "check_traceability text = any_keyword_lower traceability_keywords (lower text)"

subsection \<open>Regular expressions of the revision check\<close>

text \<open>
  \<open>re.search(pattern, text)\<close> holds when some contiguous piece of the text matches the
  pattern. The patterns are modelled as regular expressions over character classes and
  matched with derivatives. On ASCII text \<open>\s\<close> is the class of the ten white-space
  characters and \<open>\d\<close> the ten digits.
\<close>

datatype rx = Never | Eps | Cls "char list" | Seq rx rx | Alt rx rx | Star rx

fun nullable :: "rx \<Rightarrow> bool" where
  "nullable Never = False"
| "nullable Eps = True"
| "nullable (Cls cs) = False"
| "nullable (Seq r s) = (nullable r \<and> nullable s)"
| "nullable (Alt r s) = (nullable r \<or> nullable s)"
| "nullable (Star r) = True"

fun deriv :: "char \<Rightarrow> rx \<Rightarrow> rx" where
  "deriv c Never = Never"
| "deriv c Eps = Never"
| "deriv c (Cls cs) = (if c \<in> set cs then Eps else Never)"
| "deriv c (Seq r s) =
     (if nullable r then Alt (Seq (deriv c r) s) (deriv c s) else Seq (deriv c r) s)"
| "deriv c (Alt r s) = Alt (deriv c r) (deriv c s)"
| "deriv c (Star r) = Seq (deriv c r) (Star r)"

text \<open>Some prefix of the text matches.\<close>

fun re_match_prefix :: "rx \<Rightarrow> string \<Rightarrow> bool" where
  "re_match_prefix r [] = nullable r"
| "re_match_prefix r (c # cs) = (nullable r \<or> re_match_prefix (deriv c r) cs)"

text \<open>Some piece of the text matches: try every start position.\<close>

fun re_search :: "rx \<Rightarrow> string \<Rightarrow> bool" where
  "re_search r [] = nullable r"
| "re_search r (c # cs) = (re_match_prefix r (c # cs) \<or> re_search r cs)"

text \<open>
  What the matcher decides: the language of a regular expression, and \<open>star A\<close>, the
  concatenations of words of \<open>A\<close>.
\<close>

inductive_set star :: "string set \<Rightarrow> string set" for A :: "string set" where
  star_empty: "[] \<in> star A"
| star_step: "u \<in> A \<Longrightarrow> v \<in> star A \<Longrightarrow> u @ v \<in> star A"

fun lang :: "rx \<Rightarrow> string set" where
  "lang Never = {}"
| "lang Eps = {[]}"
| "lang (Cls cs) = {[c] | c. c \<in> set cs}"
| "lang (Seq r s) = {u @ v | u v. u \<in> lang r \<and> v \<in> lang s}"
| "lang (Alt r s) = lang r \<union> lang s"
| "lang (Star r) = star (lang r)"

definition rx_seq :: "rx list \<Rightarrow> rx" where
  "rx_seq rs = foldr Seq rs Eps"

definition rx_lit :: "string \<Rightarrow> rx" where
  "rx_lit s = rx_seq (map (\<lambda>c. Cls [c]) s)"

definition rx_opt :: "rx \<Rightarrow> rx" where
  "rx_opt r = Alt r Eps"

definition rx_plus :: "rx \<Rightarrow> rx" where
  "rx_plus r = Seq r (Star r)"

definition rx_space :: rx where
  "rx_space = Cls [CHR 0x09, CHR 0x0A, CHR 0x0B, CHR 0x0C, CHR 0x0D,
                   CHR 0x1C, CHR 0x1D, CHR 0x1E, CHR 0x1F, CHR 0x20]"

definition rx_digit :: rx where
  "rx_digit = Cls ''0123456789''"

text \<open>\<open>[Rr]ev[ision]?\s*[A-Z0-9]+\<close>\<close>

definition revision_pattern_1 :: rx where
  "revision_pattern_1 = rx_seq [Cls ''Rr'', rx_lit ''ev'', rx_opt (Cls ''ision''),
     Star rx_space, rx_plus (Cls (upper_letters @ ''0123456789''))]"

text \<open>\<open>[Vv]ersion\s*[0-9.]+\<close>\<close>

definition revision_pattern_2 :: rx where
  "revision_pattern_2 = rx_seq [Cls ''Vv'', rx_lit ''ersion'', Star rx_space,
     rx_plus (Cls ''0123456789.'')]"

text \<open>\<open>[Dd]ate:\s*\d{1,2}[/-]\d{1,2}[/-]\d{2,4}\<close>\<close>

definition revision_pattern_3 :: rx where
  "revision_pattern_3 = rx_seq [Cls ''Dd'', rx_lit ''ate:'', Star rx_space,
     rx_digit, rx_opt rx_digit, Cls ''/-'',
     rx_digit, rx_opt rx_digit, Cls ''/-'',
     rx_digit, rx_digit, rx_opt (Seq rx_digit (rx_opt rx_digit))]"

definition revision_patterns :: "rx list" where
  "revision_patterns = [revision_pattern_1, revision_pattern_2, revision_pattern_3]"

definition check_revision_marking :: "string \<Rightarrow> bool" where
  "check_revision_marking text = list_ex (\<lambda>pattern. re_search pattern text) revision_patterns"

section \<open>Findings and the state of the checker\<close>

datatype severity = HIGH | MEDIUM | LOW

text \<open>
  A finding is the dictionary appended to \<open>self.violations\<close> or \<open>self.warnings\<close>; the
  key \<open>fix\<close> is the field \<open>fix_hint\<close>, and the keys
  \<open>cost_impact\<close> and \<open>location\<close> are present in some findings only.
\<close>

record finding =
  rule :: string
  description :: string
  severity :: severity
  fix_hint :: string
  cost_impact :: "string option"
  location :: "string option"

text \<open>The attributes of \<open>ComplianceChecker\<close>.\<close>

record checker =
  violations :: "finding list"
  warnings :: "finding list"
  risk_score :: nat
  checked_items :: nat

definition init :: checker where
  "init = \<lparr>violations = [], warnings = [], risk_score = 0, checked_items = 0\<rparr>"

definition add_violation :: "finding \<Rightarrow> checker \<Rightarrow> checker" where
  "add_violation f s = s\<lparr>violations := violations s @ [f]\<rparr>"

definition add_warning :: "finding \<Rightarrow> checker \<Rightarrow> checker" where
  "add_warning f s = s\<lparr>warnings := warnings s @ [f]\<rparr>"

section \<open>Validation of a technical drawing\<close>

text \<open>
  The PDF reader is outside the program: on a file it either raises, with a message, or
  gives the text of each page. \<open>_extract_pdf_text\<close> joins the pages, a newline after
  each, and wraps the message of a failure.
\<close>

type_synonym pdf = "string + string list"

definition extract_pdf_text :: "pdf \<Rightarrow> string + string" where
  "extract_pdf_text p =
     (case p of
        Inl e \<Rightarrow> Inl (''PDF extraction failed: '' @ e)
      | Inr pages \<Rightarrow> Inr (concat (map (\<lambda>page. page @ [CHR 0x0A]) pages)))"

definition itar_001 :: finding where
  "itar_001 = \<lparr>rule = ''ITAR-001'',
     description = ''Missing ITAR export control statement'',
     severity = HIGH,
     fix_hint = ''Add standard ITAR warning to title block'',
     cost_impact = Some ''$10,000-$100,000 potential fine'',
     location = None\<rparr>"

definition as9100_mat_001 :: "string \<Rightarrow> finding" where
  "as9100_mat_001 material = \<lparr>rule = ''AS9100-MAT-001'',
     description = ''Restricted material detected: '' @ material,
     severity = HIGH,
     fix_hint = ''Replace '' @ material @ '' with approved alternative'',
     cost_impact = Some ''Potential rejection of entire batch'',
     location = None\<rparr>"

definition as9100_doc_002 :: finding where
  "as9100_doc_002 = \<lparr>rule = ''AS9100-DOC-002'',
     description = ''No revision number detected'',
     severity = MEDIUM,
     fix_hint = ''Add revision letter/number to title block'',
     cost_impact = None,
     location = None\<rparr>"

definition as9100_trace_001 :: finding where
  "as9100_trace_001 = \<lparr>rule = ''AS9100-TRACE-001'',
     description = ''Missing traceability requirements'',
     severity = HIGH,
     fix_hint = ''Add serial number or lot traceability note'',
     cost_impact = None,
     location = None\<rparr>"

definition system_drawing :: "string \<Rightarrow> finding" where
  "system_drawing e = \<lparr>rule = ''SYSTEM'',
     description = ''Could not fully parse drawing: '' @ e,
     severity = LOW,
     fix_hint = ''Manual review recommended'',
     cost_impact = None,
     location = None\<rparr>"

text \<open>
  The body of the \<open>try\<close>: only the extraction, its first statement, can raise, so the
  handler runs before any finding has been appended.
\<close>

definition validate_technical_drawing :: "pdf \<Rightarrow> checker \<Rightarrow> checker" where
  "validate_technical_drawing p s =
     (case extract_pdf_text p of
        Inl e \<Rightarrow> add_warning (system_drawing e) s
      | Inr text \<Rightarrow>
          (let s1 = (if \<not> check_itar_marking text then add_violation itar_001 s else s);
               s2 = foldl (\<lambda>acc material. add_violation (as9100_mat_001 material) acc) s1
                      (check_restricted_materials text);
               s3 = (if \<not> check_revision_marking text then add_warning as9100_doc_002 s2 else s2);
               s4 = (if \<not> check_traceability text then add_violation as9100_trace_001 s3 else s3)
           in s4))"

section \<open>Validation of a bill of materials\<close>

text \<open>
  The table reader (\<open>pd.read_excel\<close>, \<open>pd.read_csv\<close>) is outside the program: on a file
  it either raises, with a message, or gives a data frame. The program looks at a cell
  only through \<open>pd.isna\<close>, \<open>pd.notna\<close> and \<open>str\<close>, so a cell is either the missing value
  \<open>NaN\<close> or a value given by the string \<open>str\<close> renders it as. The rows are indexed
  \<open>0, 1, 2, \<dots>\<close> as the reader numbers them.
\<close>

datatype cell = NaN | Val string

record dataframe =
  columns :: "string list"
  rows :: "cell list list"

type_synonym table = "string + dataframe"

definition str_cell :: "cell \<Rightarrow> string" where
  "str_cell c = (case c of NaN \<Rightarrow> ''nan'' | Val v \<Rightarrow> v)"

text \<open>
  \<open>_find_column\<close>: the first column, in the order of the data frame, whose lower-cased name
  contains one of the lower-cased candidate names.
\<close>

definition find_column :: "dataframe \<Rightarrow> string list \<Rightarrow> string option" where
  "find_column df possible_names =
     List.find (\<lambda>col. list_ex (\<lambda>name. sublist (lower name) (lower col)) possible_names)
       (columns df)"

text \<open>The truth value of \<open>part_col\<close> in \<open>if part_col and \<dots>\<close>: neither \<open>None\<close> nor empty.\<close>

definition truthy :: "string option \<Rightarrow> bool" where
  "truthy col = (case col of None \<Rightarrow> False | Some c \<Rightarrow> c \<noteq> [])"

text \<open>
  \<open>row.get(col)\<close>: the cell of the row under the column, or nothing when the row has no
  such key (which includes \<open>col = None\<close>).
\<close>

definition row_get :: "string list \<Rightarrow> cell list \<Rightarrow> string option \<Rightarrow> cell option" where
  "row_get cols row col = (case col of None \<Rightarrow> None | Some c \<Rightarrow> map_of (zip cols row) c)"

text \<open>\<open>str(row.get(col, default))\<close> and the same inside an f-string.\<close>

definition str_get :: "string list \<Rightarrow> cell list \<Rightarrow> string option \<Rightarrow> string \<Rightarrow> string" where
  "str_get cols row col dflt = (case row_get cols row col of None \<Rightarrow> dflt | Some c \<Rightarrow> str_cell c)"

text \<open>\<open>pd.isna(row.get(col))\<close>: the default of \<open>get\<close> is \<open>None\<close>, which is missing too.\<close>

definition isna :: "cell option \<Rightarrow> bool" where
  "isna c = (case c of None \<Rightarrow> True | Some NaN \<Rightarrow> True | Some (Val v) \<Rightarrow> False)"

definition notna :: "cell option \<Rightarrow> bool" where
  "notna c = (\<not> isna c)"

definition itar_indicators :: "string list" where
  "itar_indicators = [''MIL-'', ''MS'', ''NAS'', ''AN'', ''CAGE'']"

definition is_itar_controlled :: "string \<Rightarrow> bool" where
  "is_itar_controlled part_number = any_keyword itar_indicators (upper part_number)"

definition restricted_bom :: "string list" where
  "restricted_bom = [''BERYLLIUM'', ''CADMIUM'', ''MERCURY'', ''LEAD'', ''CHROMIUM VI'', ''ASBESTOS'']"

definition is_restricted_material :: "string \<Rightarrow> bool" where
  "is_restricted_material material = any_keyword restricted_bom (upper material)"

definition certified_suppliers :: "string list" where
  "certified_suppliers = [''BOEING'', ''LOCKHEED'', ''RAYTHEON'', ''NORTHROP'',
     ''HONEYWELL'', ''COLLINS'', ''PARKER'', ''EATON'']"

definition is_certified_supplier :: "string \<Rightarrow> bool" where
  "is_certified_supplier supplier = any_keyword certified_suppliers (upper supplier)"

text \<open>\<open>f'Row {idx + 2}'\<close>\<close>

definition row_label :: "nat \<Rightarrow> string" where
  "row_label idx = ''Row '' @ str_nat (idx + 2)"

definition itar_bom_001 :: "nat \<Rightarrow> string \<Rightarrow> finding" where
  "itar_bom_001 idx part = \<lparr>rule = ''ITAR-BOM-001'',
     description = ''ITAR controlled part: '' @ part,
     severity = HIGH,
     fix_hint = ''Ensure proper export licensing'',
     cost_impact = None,
     location = Some (row_label idx)\<rparr>"

definition as9100_mat_002 :: "nat \<Rightarrow> string \<Rightarrow> string \<Rightarrow> finding" where
  "as9100_mat_002 idx material part = \<lparr>rule = ''AS9100-MAT-002'',
     description = ''Restricted material in BOM: '' @ material,
     severity = HIGH,
     fix_hint = ''Replace with approved material'',
     cost_impact = None,
     location = Some (row_label idx @ '', Part: '' @ part)\<rparr>"

definition as9100_sup_001 :: "nat \<Rightarrow> string \<Rightarrow> finding" where
  "as9100_sup_001 idx supplier = \<lparr>rule = ''AS9100-SUP-001'',
     description = ''Non-certified supplier: '' @ supplier,
     severity = MEDIUM,
     fix_hint = ''Verify AS9100 certification status'',
     cost_impact = None,
     location = Some (row_label idx)\<rparr>"

definition as9100_data_001 :: "nat \<Rightarrow> finding" where
  "as9100_data_001 idx = \<lparr>rule = ''AS9100-DATA-001'',
     description = ''Missing part number'',
     severity = HIGH,
     fix_hint = ''All items must have part numbers'',
     cost_impact = None,
     location = Some (row_label idx)\<rparr>"

definition system_bom :: "string \<Rightarrow> finding" where
  "system_bom e = \<lparr>rule = ''SYSTEM'',
     description = ''Error processing BOM: '' @ e,
     severity = MEDIUM,
     fix_hint = ''Check file format and structure'',
     cost_impact = None,
     location = None\<rparr>"

text \<open>
  The four checks of the loop body, in the order of the source. The columns are fixed for
  the whole loop; each check sees the state the check before it left.
\<close>

record bom_columns =
  part_col :: "string option"
  material_col :: "string option"
  supplier_col :: "string option"

definition check_itar_part :: "string list \<Rightarrow> bom_columns \<Rightarrow> nat \<Rightarrow> cell list \<Rightarrow> checker \<Rightarrow> checker" where
  "check_itar_part cols cs idx row s =
     (if truthy (part_col cs) \<and> is_itar_controlled (str_get cols row (part_col cs) [])
      then add_warning (itar_bom_001 idx (str_get cols row (part_col cs) ''Unknown'')) s
      else s)"

definition check_material :: "string list \<Rightarrow> bom_columns \<Rightarrow> nat \<Rightarrow> cell list \<Rightarrow> checker \<Rightarrow> checker" where
  "check_material cols cs idx row s =
     (if truthy (material_col cs) \<and> notna (row_get cols row (material_col cs))
      then (let material = upper (str_get cols row (material_col cs) [])
            in if is_restricted_material material
               then add_violation
                      (as9100_mat_002 idx material (str_get cols row (part_col cs) ''Unknown'')) s
               else s)
      else s)"

definition check_supplier :: "string list \<Rightarrow> bom_columns \<Rightarrow> nat \<Rightarrow> cell list \<Rightarrow> checker \<Rightarrow> checker" where
  "check_supplier cols cs idx row s =
     (if truthy (supplier_col cs) \<and> notna (row_get cols row (supplier_col cs))
      then (let supplier = str_get cols row (supplier_col cs) []
            in if \<not> is_certified_supplier supplier
               then add_warning (as9100_sup_001 idx supplier) s
               else s)
      else s)"

definition check_missing_part :: "string list \<Rightarrow> bom_columns \<Rightarrow> nat \<Rightarrow> cell list \<Rightarrow> checker \<Rightarrow> checker" where
  "check_missing_part cols cs idx row s =
     (if truthy (part_col cs) \<and> isna (row_get cols row (part_col cs))
      then add_violation (as9100_data_001 idx) s
      else s)"

definition bom_row :: "string list \<Rightarrow> bom_columns \<Rightarrow> checker \<Rightarrow> nat \<times> cell list \<Rightarrow> checker" where
  "bom_row cols cs s ir =
     check_missing_part cols cs (fst ir) (snd ir)
       (check_supplier cols cs (fst ir) (snd ir)
         (check_material cols cs (fst ir) (snd ir)
           (check_itar_part cols cs (fst ir) (snd ir) s)))"

text \<open>\<open>for idx, row in df.iterrows()\<close>, from a given first index.\<close>

definition bom_loop :: "string list \<Rightarrow> bom_columns \<Rightarrow> nat \<Rightarrow> cell list list \<Rightarrow> checker \<Rightarrow> checker" where
  "bom_loop cols cs start rs s = foldl (bom_row cols cs) s (List.enumerate start rs)"

definition find_columns :: "dataframe \<Rightarrow> bom_columns" where
  "find_columns df =
     \<lparr>part_col = find_column df [''Part Number'', ''P/N'', ''Part''],
      material_col = find_column df [''Material'', ''Mat'', ''Composition''],
      supplier_col = find_column df [''Supplier'', ''Vendor'', ''Manufacturer'']\<rparr>"

text \<open>
  The body of the \<open>try\<close>: only the reader, its first statement, raises, so the handler
  runs before \<open>checked_items\<close> is set and before any finding has been appended.
\<close>

definition validate_bom :: "table \<Rightarrow> checker \<Rightarrow> checker" where
  "validate_bom t s =
     (case t of
        Inl e \<Rightarrow> add_warning (system_bom e) s
      | Inr df \<Rightarrow>
          bom_loop (columns df) (find_columns df) 0 (rows df)
            (s\<lparr>checked_items := length (rows df)\<rparr>))"

section \<open>The report\<close>

record summary =
  total_violations :: nat
  total_warnings :: nat
  estimated_risk :: string

text \<open>The dictionary \<open>_generate_report\<close> returns, its keys prefixed where a name is taken.\<close>

record report =
  status :: string
  report_risk_score :: nat
  report_violations :: "finding list"
  report_warnings :: "finding list"
  report_checked_items :: nat
  timestamp :: string
  summary :: summary

definition calculate_risk_cost :: "checker \<Rightarrow> string" where
  "calculate_risk_cost s =
     (let base_cost = length (violations s) * 50000;
          warning_cost = length (warnings s) * 5000;
          total = base_cost + warning_cost
      in if total > 1000000
         then ''$'' @ format_1f (double_of_ratio total 1000000) @ ''M potential exposure''
         else if total > 0
         then ''$'' @ str_nat_commas total @ '' potential exposure''
         else ''Minimal risk'')"

text \<open>\<open>now\<close> is \<open>datetime.now().isoformat()\<close>, read from the clock by the caller.\<close>

definition generate_report :: "string \<Rightarrow> checker \<Rightarrow> report" where
  "generate_report now s =
     \<lparr>status = (if length (violations s) = 0 then ''PASS'' else ''FAIL''),
      report_risk_score = risk_score s,
      report_violations = violations s,
      report_warnings = warnings s,
      report_checked_items = checked_items s,
      timestamp = now,
      summary = \<lparr>total_violations = length (violations s),
                 total_warnings = length (warnings s),
                 estimated_risk = calculate_risk_cost s\<rparr>\<rparr>"

section \<open>The entry point\<close>

text \<open>
  What the two readers make of the file at \<open>file_path\<close>. \<open>validate_document\<close> returns the
  report and leaves the checker in a new state, which the next call starts from.
\<close>

record document =
  as_pdf :: pdf
  as_table :: table

definition validate_document :: "string \<Rightarrow> document \<Rightarrow> string \<Rightarrow> checker \<Rightarrow> report \<times> checker" where
  "validate_document now file doc_type s =
     (let s0 = s\<lparr>violations := [], warnings := [], risk_score := 0\<rparr>;
          s1 = (if doc_type = ''drawing'' then validate_technical_drawing (as_pdf file) s0
                else if doc_type = ''bom'' then validate_bom (as_table file) s0
                else s0);
          s2 = s1\<lparr>risk_score := min 100 (length (violations s1) * 15 + length (warnings s1) * 5)\<rparr>
      in (generate_report now s2, s2))"

text \<open>All findings of a report, and those of a given rule.\<close>

definition findings :: "report \<Rightarrow> finding list" where
  "findings r = report_violations r @ report_warnings r"

definition count_severity :: "severity \<Rightarrow> finding list \<Rightarrow> nat" where
  "count_severity v fs = length (filter (\<lambda>f. severity f = v) fs)"

section \<open>The score of the compliance engine\<close>

text \<open>
  \<open>ComplianceEngine.calculate_risk_score\<close> of \<open>core/compliance_engine.py\<close>, which
  \<open>validate_document\<close> does not call: it starts from 100 and deducts 15 for each violation
  and 5 for each warning, in Python's unbounded integers, and is not less than 0.
\<close>

definition calculate_risk_score :: "'a list \<Rightarrow> 'b list \<Rightarrow> int" where
  "calculate_risk_score vs ws =
     (let base_score = foldl (\<lambda>score violation. score - 15) 100 vs;
          base_score = foldl (\<lambda>score warning. score - 5) base_score ws
      in max 0 base_score)"

section \<open>Vocabulary of the properties\<close>

text \<open>
  When each check of the loop body fires on a row: the conditions of the source, read off
  the four \<open>if\<close> statements.
\<close>

definition itar_part_row :: "string list \<Rightarrow> bom_columns \<Rightarrow> cell list \<Rightarrow> bool" where
  "itar_part_row cols cs row =
     (truthy (part_col cs) \<and> is_itar_controlled (str_get cols row (part_col cs) []))"

definition restricted_material_row :: "string list \<Rightarrow> bom_columns \<Rightarrow> cell list \<Rightarrow> bool" where
  "restricted_material_row cols cs row =
     (truthy (material_col cs) \<and> notna (row_get cols row (material_col cs)) \<and>
      is_restricted_material (upper (str_get cols row (material_col cs) [])))"

definition uncertified_supplier_row :: "string list \<Rightarrow> bom_columns \<Rightarrow> cell list \<Rightarrow> bool" where
  "uncertified_supplier_row cols cs row =
     (truthy (supplier_col cs) \<and> notna (row_get cols row (supplier_col cs)) \<and>
      \<not> is_certified_supplier (str_get cols row (supplier_col cs) []))"

definition missing_part_row :: "string list \<Rightarrow> bom_columns \<Rightarrow> cell list \<Rightarrow> bool" where
  "missing_part_row cols cs row =
     (truthy (part_col cs) \<and> isna (row_get cols row (part_col cs)))"

text \<open>What one pass of the loop body appends to each list.\<close>

definition row_violations :: "string list \<Rightarrow> bom_columns \<Rightarrow> nat \<times> cell list \<Rightarrow> finding list" where
  "row_violations cols cs ir = violations (bom_row cols cs init ir)"

definition row_warnings :: "string list \<Rightarrow> bom_columns \<Rightarrow> nat \<times> cell list \<Rightarrow> finding list" where
  "row_warnings cols cs ir = warnings (bom_row cols cs init ir)"

definition with_rule :: "string \<Rightarrow> finding list \<Rightarrow> finding list" where
  "with_rule r fs = filter (\<lambda>f. rule f = r) fs"

text \<open>A run of calls on one checker instance, each call starting from the state the last left.\<close>

definition run_calls :: "(string \<times> document \<times> string) list \<Rightarrow> checker \<Rightarrow> checker" where
  "run_calls calls s = foldl (\<lambda>acc (now, file, doc_type). snd (validate_document now file doc_type acc)) s calls"

section \<open>Example documents\<close>

text \<open>A one-row bill of materials: a rivet with a military-standard part number.\<close>

definition bom_ms :: document where
  "bom_ms = \<lparr>as_pdf = Inl ''EOF marker not found'',
     as_table = Inr \<lparr>columns = [''Part Number''], rows = [[Val ''MS20470AD4-6'']]\<rparr>\<rparr>"

text \<open>A one-row bill of materials whose part number contains the letters \<open>an\<close>.\<close>

definition bom_panel :: document where
  "bom_panel = \<lparr>as_pdf = Inl ''EOF marker not found'',
     as_table = Inr \<lparr>columns = [''Part Number''], rows = [[Val ''Panel-7'']]\<rparr>\<rparr>"

text \<open>A file that neither reader can decode.\<close>

definition unreadable :: document where
  "unreadable = \<lparr>as_pdf = Inl ''EOF marker not found'',
     as_table = Inl ''No columns to parse from file''\<rparr>"

text \<open>
  Two rows: the first lacks its part number, the second is made of a restricted material.
\<close>

definition bom_two_rows :: document where
  "bom_two_rows = \<lparr>as_pdf = Inl ''EOF marker not found'',
     as_table = Inr \<lparr>columns = [''Part Number'', ''Material''],
                      rows = [[NaN, NaN], [Val ''P-100'', Val ''Cadmium'']]\<rparr>\<rparr>"

text \<open>Five rows, of which the second and the fourth lack their part number.\<close>

definition bom_five_rows :: document where
  "bom_five_rows = \<lparr>as_pdf = Inl ''EOF marker not found'',
     as_table = Inr \<lparr>columns = [''Part Number'', ''Qty''],
                      rows = [[Val ''P-100'', Val ''4''], [NaN, Val ''2''], [Val ''P-300'', Val ''1''],
                              [NaN, Val ''8''], [Val ''P-500'', Val ''6'']]\<rparr>\<rparr>"

text \<open>The characters \<open>str\<close> renders a natural number with.\<close>

definition is_digit :: "char \<Rightarrow> bool" where
  "is_digit c = (c \<in> set ''0123456789'')"

text \<open>Two rows, the second plated with cadmium.\<close>

definition bom_cadmium :: document where
  "bom_cadmium = \<lparr>as_pdf = Inl ''EOF marker not found'',
     as_table = Inr \<lparr>columns = [''Part Number'', ''Material''],
                      rows = [[Val ''P-100'', Val ''Steel 4130''],
                              [Val ''P-200'', Val ''Cadmium Plating 0.002in'']]\<rparr>\<rparr>"

text \<open>Two drawings whose texts differ in letter case only.\<close>

definition drawing_rev_mixed :: document where
  "drawing_rev_mixed = \<lparr>as_pdf = Inr [''Rev A: Itar data''],
     as_table = Inl ''No columns to parse from file''\<rparr>"

definition drawing_rev_upper :: document where
  "drawing_rev_upper = \<lparr>as_pdf = Inr [''REV A: ITAR DATA''],
     as_table = Inl ''No columns to parse from file''\<rparr>"

section \<open>The loop of the bill-of-materials check\<close>

lemma add_violation_simps:
  "violations (add_violation f s) = violations s @ [f]"
  "warnings (add_violation f s) = warnings s"
  "checked_items (add_violation f s) = checked_items s"
  "risk_score (add_violation f s) = risk_score s"
  by (simp_all add: add_violation_def)

lemma add_warning_simps:
  "violations (add_warning f s) = violations s"
  "warnings (add_warning f s) = warnings s @ [f]"
  "checked_items (add_warning f s) = checked_items s"
  "risk_score (add_warning f s) = risk_score s"
  by (simp_all add: add_warning_def)

lemma check_itar_part_eq:
  "check_itar_part cols cs idx row s =
     (if itar_part_row cols cs row
      then add_warning (itar_bom_001 idx (str_get cols row (part_col cs) ''Unknown'')) s else s)"
  by (simp add: check_itar_part_def itar_part_row_def)

lemma check_material_eq:
  "check_material cols cs idx row s =
     (if restricted_material_row cols cs row
      then add_violation (as9100_mat_002 idx (upper (str_get cols row (material_col cs) []))
             (str_get cols row (part_col cs) ''Unknown'')) s else s)"
  by (simp add: check_material_def restricted_material_row_def Let_def)

lemma check_supplier_eq:
  "check_supplier cols cs idx row s =
     (if uncertified_supplier_row cols cs row
      then add_warning (as9100_sup_001 idx (str_get cols row (supplier_col cs) [])) s else s)"
  by (simp add: check_supplier_def uncertified_supplier_row_def Let_def)

lemma check_missing_part_eq:
  "check_missing_part cols cs idx row s =
     (if missing_part_row cols cs row then add_violation (as9100_data_001 idx) s else s)"
  by (simp add: check_missing_part_def missing_part_row_def)

lemmas check_eqs = check_itar_part_eq check_material_eq check_supplier_eq check_missing_part_eq

lemma bom_row_violations:
  "violations (bom_row cols cs s ir) =
     violations s @
     (if restricted_material_row cols cs (snd ir)
      then [as9100_mat_002 (fst ir) (upper (str_get cols (snd ir) (material_col cs) []))
              (str_get cols (snd ir) (part_col cs) ''Unknown'')] else []) @
     (if missing_part_row cols cs (snd ir) then [as9100_data_001 (fst ir)] else [])"
  by (simp add: bom_row_def check_eqs add_violation_simps add_warning_simps)

lemma bom_row_warnings:
  "warnings (bom_row cols cs s ir) =
     warnings s @
     (if itar_part_row cols cs (snd ir)
      then [itar_bom_001 (fst ir) (str_get cols (snd ir) (part_col cs) ''Unknown'')] else []) @
     (if uncertified_supplier_row cols cs (snd ir)
      then [as9100_sup_001 (fst ir) (str_get cols (snd ir) (supplier_col cs) [])] else [])"
  by (simp add: bom_row_def check_eqs add_violation_simps add_warning_simps)

lemma bom_row_other:
  "checked_items (bom_row cols cs s ir) = checked_items s"
  "risk_score (bom_row cols cs s ir) = risk_score s"
  by (simp_all add: bom_row_def check_eqs add_violation_simps add_warning_simps)

lemma row_violations_eq:
  "row_violations cols cs ir =
     (if restricted_material_row cols cs (snd ir)
      then [as9100_mat_002 (fst ir) (upper (str_get cols (snd ir) (material_col cs) []))
              (str_get cols (snd ir) (part_col cs) ''Unknown'')] else []) @
     (if missing_part_row cols cs (snd ir) then [as9100_data_001 (fst ir)] else [])"
  by (simp add: row_violations_def bom_row_violations init_def)

lemma row_warnings_eq:
  "row_warnings cols cs ir =
     (if itar_part_row cols cs (snd ir)
      then [itar_bom_001 (fst ir) (str_get cols (snd ir) (part_col cs) ''Unknown'')] else []) @
     (if uncertified_supplier_row cols cs (snd ir)
      then [as9100_sup_001 (fst ir) (str_get cols (snd ir) (supplier_col cs) [])] else [])"
  by (simp add: row_warnings_def bom_row_warnings init_def)

lemma bom_row_append:
  "violations (bom_row cols cs s ir) = violations s @ row_violations cols cs ir"
  "warnings (bom_row cols cs s ir) = warnings s @ row_warnings cols cs ir"
  by (simp_all add: bom_row_violations bom_row_warnings row_violations_eq row_warnings_eq)

lemma bom_loop_Nil: "bom_loop cols cs k [] s = s"
  by (simp add: bom_loop_def)

lemma bom_loop_Cons: "bom_loop cols cs k (r # rs) s = bom_loop cols cs (Suc k) rs (bom_row cols cs s (k, r))"
  by (simp add: bom_loop_def)

lemma bom_loop_violations:
  "violations (bom_loop cols cs k rs s) =
     violations s @ concat (map (row_violations cols cs) (List.enumerate k rs))"
  by (induction rs arbitrary: k s) (simp_all add: bom_loop_Nil bom_loop_Cons bom_row_append)

lemma bom_loop_warnings:
  "warnings (bom_loop cols cs k rs s) =
     warnings s @ concat (map (row_warnings cols cs) (List.enumerate k rs))"
  by (induction rs arbitrary: k s) (simp_all add: bom_loop_Nil bom_loop_Cons bom_row_append)

lemma bom_loop_other:
  "checked_items (bom_loop cols cs k rs s) = checked_items s"
  "risk_score (bom_loop cols cs k rs s) = risk_score s"
  by (induction rs arbitrary: k s) (simp_all add: bom_loop_Nil bom_loop_Cons bom_row_other)

lemma validate_bom_violations:
  "violations (validate_bom (Inr df) s) =
     violations s @ concat (map (row_violations (columns df) (find_columns df)) (List.enumerate 0 (rows df)))"
  by (simp add: validate_bom_def bom_loop_violations)

lemma validate_bom_warnings:
  "warnings (validate_bom (Inr df) s) =
     warnings s @ concat (map (row_warnings (columns df) (find_columns df)) (List.enumerate 0 (rows df)))"
  by (simp add: validate_bom_def bom_loop_warnings)

lemma validate_bom_checked_items:
  "checked_items (validate_bom (Inr df) s) = length (rows df)"
  by (simp add: validate_bom_def bom_loop_other)

lemma report_status:
  "status (fst (validate_document now file doc_type s)) =
     (if report_violations (fst (validate_document now file doc_type s)) = [] then ''PASS'' else ''FAIL'')"
  by (simp add: validate_document_def generate_report_def Let_def)

lemma report_risk_score_eq:
  "report_risk_score (fst (validate_document now file doc_type s)) =
     min 100 (length (report_violations (fst (validate_document now file doc_type s))) * 15 +
              length (report_warnings (fst (validate_document now file doc_type s))) * 5)"
  by (simp add: validate_document_def generate_report_def Let_def)

lemma report_bom_violations:
  "as_table file = Inr df \<Longrightarrow>
   report_violations (fst (validate_document now file ''bom'' s)) =
     concat (map (row_violations (columns df) (find_columns df)) (List.enumerate 0 (rows df)))"
  by (simp add: validate_document_def generate_report_def Let_def validate_bom_violations)

lemma report_bom_warnings:
  "as_table file = Inr df \<Longrightarrow>
   report_warnings (fst (validate_document now file ''bom'' s)) =
     concat (map (row_warnings (columns df) (find_columns df)) (List.enumerate 0 (rows df)))"
  by (simp add: validate_document_def generate_report_def Let_def validate_bom_warnings)

lemma bom_ms_cols: "find_columns \<lparr>columns = [''Part Number''], rows = rs\<rparr> =
   \<lparr>part_col = Some ''Part Number'', material_col = None, supplier_col = None\<rparr>"
  by code_simp

lemma bom_ms_report:
  "report_violations (fst (validate_document now bom_ms ''bom'' s)) = [] \<and>
   report_warnings (fst (validate_document now bom_ms ''bom'' s)) = [itar_bom_001 0 ''MS20470AD4-6'']"
proof -
  have t: "as_table bom_ms = Inr \<lparr>columns = [''Part Number''], rows = [[Val ''MS20470AD4-6'']]\<rparr>"
    by (simp add: bom_ms_def)
  have v: "row_violations [''Part Number''] \<lparr>part_col = Some ''Part Number'', material_col = None, supplier_col = None\<rparr> (0, [Val ''MS20470AD4-6'']) = []"
    by code_simp
  have w: "row_warnings [''Part Number''] \<lparr>part_col = Some ''Part Number'', material_col = None, supplier_col = None\<rparr> (0, [Val ''MS20470AD4-6'']) = [itar_bom_001 0 ''MS20470AD4-6'']"
    by code_simp
  show ?thesis
    by (simp add: report_bom_violations [OF t] report_bom_warnings [OF t] bom_ms_cols v w)
qed

section \<open>Status, risk score and exposure\<close>

text \<open>
  Claim C1 says that the status is FAIL exactly when some finding has severity High. The
  code decides the status from the list of violations alone, and the loop of the
  bill-of-materials check files the finding of rule ITAR-BOM-001, whose severity is
  \<open>HIGH\<close>, under the warnings. On a bill of materials whose only row is the part
  \<open>MS20470AD4-6\<close> the single finding has severity High and the status is PASS.
\<close>

theorem status_pass_with_high_finding:
  "status (fst (validate_document now bom_ms ''bom'' s)) = ''PASS'' \<and>
   map severity (findings (fst (validate_document now bom_ms ''bom'' s))) = [HIGH]"
  by (simp add: report_status findings_def bom_ms_report itar_bom_001_def)

text \<open>
  Claim C2 says that the risk score is \<open>min(100, 15 \<times> High + 5 \<times> Medium-or-Low)\<close>. The
  code weighs the violations by 15 and the warnings by 5, so the High finding of rule
  ITAR-BOM-001, filed under the warnings, counts 5: on the same bill of materials there is
  one High finding and no other, and the score is 5, not 15.
\<close>

theorem risk_score_5_with_high_finding:
  "report_risk_score (fst (validate_document now bom_ms ''bom'' s)) = 5 \<and>
   count_severity HIGH (findings (fst (validate_document now bom_ms ''bom'' s))) = 1 \<and>
   count_severity MEDIUM (findings (fst (validate_document now bom_ms ''bom'' s))) = 0 \<and>
   count_severity LOW (findings (fst (validate_document now bom_ms ''bom'' s))) = 0"
  by (simp add: report_risk_score_eq findings_def bom_ms_report itar_bom_001_def count_severity_def)

section \<open>Parts that look export-controlled\<close>

lemma lower_Nil_iff: "lower s = [] \<longleftrightarrow> s = []"
  by (simp add: lower_def)

lemma find_column_nonempty:
  assumes "find_column df names = Some c" and "[] \<notin> set names"
  shows "c \<noteq> []"
proof
  assume "c = []"
  from assms(1) have "list_ex (\<lambda>name. sublist (lower name) (lower c)) names"
    by (auto simp: find_column_def find_Some_iff)
  then obtain name where "name \<in> set names" "sublist (lower name) (lower c)"
    by (auto simp: list_ex_iff)
  with \<open>c = []\<close> have "name = []" by (simp add: lower_def)
  with \<open>name \<in> set names\<close> assms(2) show False by simp
qed

lemma part_col_truthy: "part_col (find_columns df) = Some c \<Longrightarrow> truthy (part_col (find_columns df))"
  using find_column_nonempty [of df "[''Part Number'', ''P/N'', ''Part'']" c]
  by (simp add: find_columns_def truthy_def)

lemma material_col_truthy: "material_col (find_columns df) = Some c \<Longrightarrow> truthy (material_col (find_columns df))"
  using find_column_nonempty [of df "[''Material'', ''Mat'', ''Composition'']" c]
  by (simp add: find_columns_def truthy_def)

lemma enumerate_member: "i < length rs \<Longrightarrow> (k + i, rs ! i) \<in> set (List.enumerate k rs)"
  by (auto simp: in_set_enumerate_eq)

lemma with_rule_concat:
  "with_rule r (concat (map f xs)) = concat (map (\<lambda>x. with_rule r (f x)) xs)"
  by (induction xs) (simp_all add: with_rule_def)

lemma row_violations_no_itar: "with_rule ''ITAR-BOM-001'' (row_violations cols cs ir) = []"
  by (simp add: row_violations_eq with_rule_def as9100_mat_002_def as9100_data_001_def)

text \<open>
  Claim C10: for every row of a bill of materials whose part-number string, in upper case,
  contains one of \<open>MIL-\<close>, \<open>MS\<close>, \<open>NAS\<close>, \<open>AN\<close>, \<open>CAGE\<close>, the finding of rule
  ITAR-BOM-001, of severity \<open>HIGH\<close>, is appended to the warnings and not to the violations.
  So it weighs 5 in the risk score, where a violation weighs 15, and the status, which is
  FAIL exactly when there is a violation, is never FAIL because of it. The part-number
  string is \<open>str(row.get(part_col, ''))\<close>, for the part-number column \<open>c\<close> that was
  found.
\<close>

theorem itar_part_filed_as_warning:
  assumes table: "as_table file = Inr df"
    and row: "i < length (rows df)"
    and col: "part_col (find_columns df) = Some c"
    and ind: "k \<in> {''MIL-'', ''MS'', ''NAS'', ''AN'', ''CAGE''}"
    and sub: "sublist k (upper (str_get (columns df) (rows df ! i) (Some c) []))"
  shows "itar_bom_001 i (str_get (columns df) (rows df ! i) (Some c) ''Unknown'')
           \<in> set (report_warnings (fst (validate_document now file ''bom'' s))) \<and>
         severity (itar_bom_001 i (str_get (columns df) (rows df ! i) (Some c) ''Unknown'')) = HIGH \<and>
         with_rule ''ITAR-BOM-001'' (report_violations (fst (validate_document now file ''bom'' s))) = [] \<and>
         report_risk_score (fst (validate_document now file ''bom'' s)) =
           min 100 (15 * length (report_violations (fst (validate_document now file ''bom'' s))) +
                    5 * length (report_warnings (fst (validate_document now file ''bom'' s)))) \<and>
         (status (fst (validate_document now file ''bom'' s)) = ''FAIL'' \<longleftrightarrow>
            report_violations (fst (validate_document now file ''bom'' s)) \<noteq> [])"
proof -
  let ?cs = "find_columns df"
  let ?f = "itar_bom_001 i (str_get (columns df) (rows df ! i) (Some c) ''Unknown'')"
  from ind sub have "is_itar_controlled (str_get (columns df) (rows df ! i) (Some c) [])"
    by (auto simp: is_itar_controlled_def any_keyword_def itar_indicators_def)
  with col part_col_truthy [OF col] have fires: "itar_part_row (columns df) ?cs (rows df ! i)"
    by (simp add: itar_part_row_def)
  have "?f \<in> set (row_warnings (columns df) ?cs (i, rows df ! i))"
    using fires col by (simp add: row_warnings_eq)
  moreover have "(i, rows df ! i) \<in> set (List.enumerate 0 (rows df))"
    using enumerate_member [OF row, of 0] by simp
  ultimately have "?f \<in> set (report_warnings (fst (validate_document now file ''bom'' s)))"
    unfolding report_bom_warnings [OF table] by auto
  moreover have "severity ?f = HIGH"
    by (simp add: itar_bom_001_def)
  moreover have "with_rule ''ITAR-BOM-001'' (report_violations (fst (validate_document now file ''bom'' s))) = []"
    unfolding report_bom_violations [OF table] by (simp add: with_rule_concat row_violations_no_itar)
  moreover have "report_risk_score (fst (validate_document now file ''bom'' s)) =
           min 100 (15 * length (report_violations (fst (validate_document now file ''bom'' s))) +
                    5 * length (report_warnings (fst (validate_document now file ''bom'' s))))"
    by (simp add: report_risk_score_eq mult.commute)
  moreover have "status (fst (validate_document now file ''bom'' s)) = ''FAIL'' \<longleftrightarrow>
            report_violations (fst (validate_document now file ''bom'' s)) \<noteq> []"
    by (simp add: report_status)
  ultimately show ?thesis by blast
qed

theorem itar_part_filed_as_warning_witness:
  "itar_bom_001 0 ''Panel-7''
     \<in> set (report_warnings (fst (validate_document ''2025-01-01T00:00:00'' bom_panel ''bom'' init))) \<and>
   severity (itar_bom_001 0 ''Panel-7'') = HIGH \<and>
   with_rule ''ITAR-BOM-001'' (report_violations (fst (validate_document ''2025-01-01T00:00:00'' bom_panel ''bom'' init))) = [] \<and>
   report_risk_score (fst (validate_document ''2025-01-01T00:00:00'' bom_panel ''bom'' init)) =
     min 100 (15 * length (report_violations (fst (validate_document ''2025-01-01T00:00:00'' bom_panel ''bom'' init))) +
              5 * length (report_warnings (fst (validate_document ''2025-01-01T00:00:00'' bom_panel ''bom'' init)))) \<and>
   (status (fst (validate_document ''2025-01-01T00:00:00'' bom_panel ''bom'' init)) = ''FAIL'' \<longleftrightarrow>
      report_violations (fst (validate_document ''2025-01-01T00:00:00'' bom_panel ''bom'' init)) \<noteq> [])"
proof -
  let ?df = "\<lparr>columns = [''Part Number''], rows = [[Val ''Panel-7'']]\<rparr>"
  have table: "as_table bom_panel = Inr ?df"
    by (simp add: bom_panel_def)
  have row: "0 < length (rows ?df)"
    by simp
  have col: "part_col (find_columns ?df) = Some ''Part Number''"
    by (simp add: bom_ms_cols)
  have ind: "''AN'' \<in> {''MIL-'', ''MS'', ''NAS'', ''AN'', ''CAGE''}"
    by simp
  have sub: "sublist ''AN'' (upper (str_get (columns ?df) (rows ?df ! 0) (Some ''Part Number'') []))"
    by code_simp
  have part: "str_get (columns ?df) (rows ?df ! 0) (Some ''Part Number'') ''Unknown'' = ''Panel-7''"
    by code_simp
  from itar_part_filed_as_warning [OF table row col ind sub, of "''2025-01-01T00:00:00''" init]
  show ?thesis
    unfolding part .
qed

section \<open>The exposure estimate\<close>

lemma report_estimated_risk:
  "estimated_risk (summary (fst (validate_document now file doc_type s))) =
     calculate_risk_cost
       \<lparr>violations = report_violations (fst (validate_document now file doc_type s)),
        warnings = report_warnings (fst (validate_document now file doc_type s)),
        risk_score = 0, checked_items = 0\<rparr>"
  by (simp add: validate_document_def generate_report_def Let_def calculate_risk_cost_def)

lemma report_totals:
  "total_violations (summary (fst (validate_document now file doc_type s))) =
     length (report_violations (fst (validate_document now file doc_type s)))"
  "total_warnings (summary (fst (validate_document now file doc_type s))) =
     length (report_warnings (fst (validate_document now file doc_type s)))"
  by (simp_all add: validate_document_def generate_report_def Let_def)

lemma str_nat_commas_5000: "str_nat_commas 5000 = ''5,000''"
  by (simp add: str_nat_commas.simps [of 5000] str_nat_commas.simps [of 5] str_nat.simps [of 5]
      digit_char_def)

lemma risk_cost_one_warning:
  "calculate_risk_cost \<lparr>violations = [], warnings = [w], risk_score = a, checked_items = b\<rparr> =
     ''$5,000 potential exposure''"
  by (simp add: calculate_risk_cost_def str_nat_commas_5000)

lemma risk_cost_none:
  "calculate_risk_cost \<lparr>violations = [], warnings = [], risk_score = a, checked_items = b\<rparr> =
     ''Minimal risk''"
  by (simp add: calculate_risk_cost_def)

text \<open>
  Claim C3 says that the exposure sums $50,000 for each High finding and $5,000 for each
  other finding. The code sums $50,000 for each violation and $5,000 for each warning, so
  the High finding of rule ITAR-BOM-001, filed under the warnings, counts $5,000: on the
  bill of materials \<open>bom_ms\<close> the only finding has severity High and the exposure is
  \<open>$5,000 potential exposure\<close>, not \<open>$50,000 potential exposure\<close>.
\<close>

theorem exposure_5000_with_high_finding:
  "estimated_risk (summary (fst (validate_document now bom_ms ''bom'' s))) = ''$5,000 potential exposure'' \<and>
   count_severity HIGH (findings (fst (validate_document now bom_ms ''bom'' s))) = 1 \<and>
   length (findings (fst (validate_document now bom_ms ''bom'' s))) = 1"
  by (simp add: report_estimated_risk findings_def bom_ms_report itar_bom_001_def
      count_severity_def risk_cost_one_warning)

text \<open>A run without findings: status PASS, risk score 0, exposure \<open>Minimal risk\<close>.\<close>

lemma no_findings_report:
  assumes "findings (fst (validate_document now file doc_type s)) = []"
  shows "status (fst (validate_document now file doc_type s)) = ''PASS'' \<and>
         report_risk_score (fst (validate_document now file doc_type s)) = 0 \<and>
         estimated_risk (summary (fst (validate_document now file doc_type s))) = ''Minimal risk''"
  using assms by (simp add: findings_def report_status report_risk_score_eq report_estimated_risk risk_cost_none)

section \<open>Files that cannot be decoded\<close>

lemma report_drawing_failure:
  assumes "as_pdf file = Inl e"
  shows "fst (validate_document now file ''drawing'' s) =
     \<lparr>status = ''PASS'', report_risk_score = 5, report_violations = [],
      report_warnings = [system_drawing (''PDF extraction failed: '' @ e)],
      report_checked_items = checked_items s, timestamp = now,
      summary = \<lparr>total_violations = 0, total_warnings = 1,
                 estimated_risk = ''$5,000 potential exposure''\<rparr>\<rparr>"
  using assms
  by (simp add: validate_document_def generate_report_def Let_def validate_technical_drawing_def
      extract_pdf_text_def add_warning_def calculate_risk_cost_def str_nat_commas_5000)

lemma report_bom_failure:
  assumes "as_table file = Inl e"
  shows "fst (validate_document now file ''bom'' s) =
     \<lparr>status = ''PASS'', report_risk_score = 5, report_violations = [],
      report_warnings = [system_bom e],
      report_checked_items = checked_items s, timestamp = now,
      summary = \<lparr>total_violations = 0, total_warnings = 1,
                 estimated_risk = ''$5,000 potential exposure''\<rparr>\<rparr>"
  using assms
  by (simp add: validate_document_def generate_report_def Let_def validate_bom_def
      add_warning_def calculate_risk_cost_def str_nat_commas_5000)

text \<open>
  Claim C5 says that a file that cannot be decoded gives exactly one finding of severity
  Low that recommends manual review, on the drawing path and on the path of the bill of
  materials. On the path of the bill of materials the handler appends a finding of
  severity \<open>MEDIUM\<close> whose remedy is \<open>Check file format and structure\<close>.
\<close>

theorem decode_failure_bom_counterexample:
  "map severity (findings (fst (validate_document ''2025-01-01T00:00:00'' unreadable ''bom'' init))) = [MEDIUM] \<and>
   map fix_hint (findings (fst (validate_document ''2025-01-01T00:00:00'' unreadable ''bom'' init))) =
     [''Check file format and structure'']"
proof -
  have t: "as_table unreadable = Inl ''No columns to parse from file''"
    by (simp add: unreadable_def)
  show ?thesis
    by (simp add: report_bom_failure [OF t] findings_def system_bom_def)
qed

text \<open>
  Claim C5, amended: when the reader raises, the run does not abort and returns a complete
  report with exactly one finding, of rule \<open>SYSTEM\<close>, filed as a warning: status PASS,
  risk score 5, no violation, one warning. On the drawing path the finding has severity
  Low and the remedy \<open>Manual review recommended\<close>; on the path of the bill of materials it
  has severity Medium and the remedy \<open>Check file format and structure\<close>.
\<close>

theorem decode_failure_one_finding:
  "(as_pdf file = Inl e \<longrightarrow>
      findings (fst (validate_document now file ''drawing'' s)) =
        [system_drawing (''PDF extraction failed: '' @ e)] \<and>
      severity (system_drawing (''PDF extraction failed: '' @ e)) = LOW \<and>
      fix_hint (system_drawing (''PDF extraction failed: '' @ e)) = ''Manual review recommended'' \<and>
      fst (validate_document now file ''drawing'' s) =
        \<lparr>status = ''PASS'', report_risk_score = 5, report_violations = [],
         report_warnings = [system_drawing (''PDF extraction failed: '' @ e)],
         report_checked_items = checked_items s, timestamp = now,
         summary = \<lparr>total_violations = 0, total_warnings = 1,
                    estimated_risk = ''$5,000 potential exposure''\<rparr>\<rparr>) \<and>
   (as_table file = Inl e' \<longrightarrow>
      findings (fst (validate_document now file ''bom'' s)) = [system_bom e'] \<and>
      severity (system_bom e') = MEDIUM \<and>
      fix_hint (system_bom e') = ''Check file format and structure'' \<and>
      fst (validate_document now file ''bom'' s) =
        \<lparr>status = ''PASS'', report_risk_score = 5, report_violations = [],
         report_warnings = [system_bom e'],
         report_checked_items = checked_items s, timestamp = now,
         summary = \<lparr>total_violations = 0, total_warnings = 1,
                    estimated_risk = ''$5,000 potential exposure''\<rparr>\<rparr>)"
  by (simp add: report_drawing_failure report_bom_failure findings_def system_drawing_def system_bom_def)

theorem decode_failure_one_finding_witness:
  "as_pdf unreadable = Inl ''EOF marker not found'' \<and>
   as_table unreadable = Inl ''No columns to parse from file'' \<and>
   map rule (findings (fst (validate_document ''2025-01-01T00:00:00'' unreadable ''drawing'' init))) = [''SYSTEM''] \<and>
   status (fst (validate_document ''2025-01-01T00:00:00'' unreadable ''drawing'' init)) = ''PASS'' \<and>
   map rule (findings (fst (validate_document ''2025-01-01T00:00:00'' unreadable ''bom'' init))) = [''SYSTEM''] \<and>
   status (fst (validate_document ''2025-01-01T00:00:00'' unreadable ''bom'' init)) = ''PASS''"
proof -
  have p: "as_pdf unreadable = Inl ''EOF marker not found''"
    and t: "as_table unreadable = Inl ''No columns to parse from file''"
    by (simp_all add: unreadable_def)
  from decode_failure_one_finding [of unreadable "''EOF marker not found''" "''2025-01-01T00:00:00''" init
      "''No columns to parse from file''"] p t
  show ?thesis
    by (simp add: system_drawing_def system_bom_def findings_def)
qed

section \<open>The checker keeps no findings between calls\<close>

lemma foldl_add_violation:
  "violations (foldl (\<lambda>acc m. add_violation (f m) acc) s ms) = violations s @ map f ms"
  "warnings (foldl (\<lambda>acc m. add_violation (f m) acc) s ms) = warnings s"
  "checked_items (foldl (\<lambda>acc m. add_violation (f m) acc) s ms) = checked_items s"
  by (induction ms arbitrary: s) (simp_all add: add_violation_simps)

text \<open>What the drawing check appends, read off the text.\<close>

lemma drawing_violations:
  "violations (validate_technical_drawing (Inr pages) s) =
     violations s @
     (if check_itar_marking (concat (map (\<lambda>page. page @ [CHR 0x0A]) pages)) then [] else [itar_001]) @
     map as9100_mat_001 (check_restricted_materials (concat (map (\<lambda>page. page @ [CHR 0x0A]) pages))) @
     (if check_traceability (concat (map (\<lambda>page. page @ [CHR 0x0A]) pages)) then [] else [as9100_trace_001])"
  by (simp add: validate_technical_drawing_def extract_pdf_text_def Let_def
      add_violation_simps add_warning_simps foldl_add_violation)

lemma drawing_warnings:
  "warnings (validate_technical_drawing (Inr pages) s) =
     warnings s @
     (if check_revision_marking (concat (map (\<lambda>page. page @ [CHR 0x0A]) pages)) then [] else [as9100_doc_002])"
  by (simp add: validate_technical_drawing_def extract_pdf_text_def Let_def
      add_violation_simps add_warning_simps foldl_add_violation)

lemma drawing_failure:
  "violations (validate_technical_drawing (Inl e) s) = violations s"
  "warnings (validate_technical_drawing (Inl e) s) = warnings s @ [system_drawing (''PDF extraction failed: '' @ e)]"
  by (simp_all add: validate_technical_drawing_def extract_pdf_text_def add_warning_simps)

lemma drawing_checked_items:
  "checked_items (validate_technical_drawing p s) = checked_items s"
  by (cases p)
     (simp_all add: validate_technical_drawing_def extract_pdf_text_def Let_def
        add_violation_simps add_warning_simps foldl_add_violation)

lemma drawing_from_init:
  "violations (validate_technical_drawing p s) = violations s @ violations (validate_technical_drawing p init)"
  "warnings (validate_technical_drawing p s) = warnings s @ warnings (validate_technical_drawing p init)"
  by (cases p; simp add: drawing_violations drawing_warnings drawing_failure init_def)+

lemma bom_failure:
  "violations (validate_bom (Inl e) s) = violations s"
  "warnings (validate_bom (Inl e) s) = warnings s @ [system_bom e]"
  by (simp_all add: validate_bom_def add_warning_simps)

lemma bom_from_init:
  "violations (validate_bom t s) = violations s @ violations (validate_bom t init)"
  "warnings (validate_bom t s) = warnings s @ warnings (validate_bom t init)"
  by (cases t; simp add: validate_bom_violations validate_bom_warnings bom_failure init_def)+

lemma report_lists_from_init:
  "report_violations (fst (validate_document now file doc_type s)) =
     report_violations (fst (validate_document now' file doc_type init))"
  "report_warnings (fst (validate_document now file doc_type s)) =
     report_warnings (fst (validate_document now' file doc_type init))"
  by (simp_all add: validate_document_def generate_report_def Let_def
      drawing_from_init [of _ "s\<lparr>violations := [], warnings := [], risk_score := 0\<rparr>"]
      bom_from_init [of _ "s\<lparr>violations := [], warnings := [], risk_score := 0\<rparr>"] init_def)

lemma summary_eq:
  "summary (fst (validate_document now file doc_type s)) =
     \<lparr>total_violations = length (report_violations (fst (validate_document now file doc_type s))),
      total_warnings = length (report_warnings (fst (validate_document now file doc_type s))),
      estimated_risk = calculate_risk_cost
        \<lparr>violations = report_violations (fst (validate_document now file doc_type s)),
         warnings = report_warnings (fst (validate_document now file doc_type s)),
         risk_score = 0, checked_items = 0\<rparr>\<rparr>"
  by (simp add: validate_document_def generate_report_def Let_def calculate_risk_cost_def)

text \<open>
  Claim C6: the findings, the status, the risk score and the summary of a report depend on
  the file and the document type only. After any run of earlier calls on the same checker,
  \<open>validate_document\<close> reports the same violations, warnings, status, risk score and
  summary as on a fresh checker; only the time stamp, read from the clock, may differ.
\<close>

theorem report_independent_of_earlier_calls:
  "report_violations (fst (validate_document now file doc_type (run_calls calls init))) =
     report_violations (fst (validate_document now' file doc_type init)) \<and>
   report_warnings (fst (validate_document now file doc_type (run_calls calls init))) =
     report_warnings (fst (validate_document now' file doc_type init)) \<and>
   status (fst (validate_document now file doc_type (run_calls calls init))) =
     status (fst (validate_document now' file doc_type init)) \<and>
   report_risk_score (fst (validate_document now file doc_type (run_calls calls init))) =
     report_risk_score (fst (validate_document now' file doc_type init)) \<and>
   summary (fst (validate_document now file doc_type (run_calls calls init))) =
     summary (fst (validate_document now' file doc_type init))"
proof -
  let ?r = "fst (validate_document now file doc_type (run_calls calls init))"
  let ?r' = "fst (validate_document now' file doc_type init)"
  have v: "report_violations ?r = report_violations ?r'"
    by (rule report_lists_from_init)
  have w: "report_warnings ?r = report_warnings ?r'"
    by (rule report_lists_from_init)
  have "status ?r = status ?r'"
    unfolding report_status [of now] report_status [of now'] v ..
  moreover have "report_risk_score ?r = report_risk_score ?r'"
    unfolding report_risk_score_eq [of now] report_risk_score_eq [of now'] v w ..
  moreover have "summary ?r = summary ?r'"
    unfolding summary_eq [of now] summary_eq [of now'] v w ..
  ultimately show ?thesis
    using v w by simp
qed

text \<open>
  The key \<open>checked_items\<close> of the report is not among those: \<open>validate_document\<close> does not
  reset it, and the drawing path does not set it.
\<close>

lemma checked_items_carried_over:
  "report_checked_items (fst (validate_document now file ''drawing'' s)) = checked_items s"
  by (simp add: validate_document_def generate_report_def Let_def drawing_checked_items)

section \<open>One finding for each row a check fires on\<close>

lemma with_rule_append: "with_rule r (xs @ ys) = with_rule r xs @ with_rule r ys"
  by (simp add: with_rule_def)

lemma concat_map_if:
  "concat (map (\<lambda>x. if P x then [g x] else []) xs) = map g (filter P xs)"
  by (induction xs) simp_all

lemma with_rule_row_violations:
  "with_rule ''AS9100-MAT-002'' (row_violations cols cs ir) =
     (if restricted_material_row cols cs (snd ir)
      then [as9100_mat_002 (fst ir) (upper (str_get cols (snd ir) (material_col cs) []))
              (str_get cols (snd ir) (part_col cs) ''Unknown'')] else [])"
  "with_rule ''AS9100-DATA-001'' (row_violations cols cs ir) =
     (if missing_part_row cols cs (snd ir) then [as9100_data_001 (fst ir)] else [])"
  "with_rule ''AS9100-SUP-001'' (row_violations cols cs ir) = []"
  by (simp_all add: row_violations_eq with_rule_def as9100_mat_002_def as9100_data_001_def)

lemma with_rule_row_warnings:
  "with_rule ''ITAR-BOM-001'' (row_warnings cols cs ir) =
     (if itar_part_row cols cs (snd ir)
      then [itar_bom_001 (fst ir) (str_get cols (snd ir) (part_col cs) ''Unknown'')] else [])"
  "with_rule ''AS9100-SUP-001'' (row_warnings cols cs ir) =
     (if uncertified_supplier_row cols cs (snd ir)
      then [as9100_sup_001 (fst ir) (str_get cols (snd ir) (supplier_col cs) [])] else [])"
  "with_rule ''AS9100-MAT-002'' (row_warnings cols cs ir) = []"
  "with_rule ''AS9100-DATA-001'' (row_warnings cols cs ir) = []"
  by (simp_all add: row_warnings_eq with_rule_def itar_bom_001_def as9100_sup_001_def)

lemma findings_bom:
  "as_table file = Inr df \<Longrightarrow>
   findings (fst (validate_document now file ''bom'' s)) =
     concat (map (row_violations (columns df) (find_columns df)) (List.enumerate 0 (rows df))) @
     concat (map (row_warnings (columns df) (find_columns df)) (List.enumerate 0 (rows df)))"
  by (simp add: findings_def report_bom_violations report_bom_warnings)

lemma rule_findings_data:
  "as_table file = Inr df \<Longrightarrow>
   with_rule ''AS9100-DATA-001'' (findings (fst (validate_document now file ''bom'' s))) =
     map (\<lambda>ir. as9100_data_001 (fst ir))
       (filter (\<lambda>ir. missing_part_row (columns df) (find_columns df) (snd ir))
          (List.enumerate 0 (rows df)))"
  by (simp add: findings_bom with_rule_append with_rule_concat with_rule_row_violations
      with_rule_row_warnings concat_map_if)

lemma rule_findings_mat:
  "as_table file = Inr df \<Longrightarrow>
   with_rule ''AS9100-MAT-002'' (findings (fst (validate_document now file ''bom'' s))) =
     map (\<lambda>ir. as9100_mat_002 (fst ir)
                (upper (str_get (columns df) (snd ir) (material_col (find_columns df)) []))
                (str_get (columns df) (snd ir) (part_col (find_columns df)) ''Unknown''))
       (filter (\<lambda>ir. restricted_material_row (columns df) (find_columns df) (snd ir))
          (List.enumerate 0 (rows df)))"
  by (simp add: findings_bom with_rule_append with_rule_concat with_rule_row_violations
      with_rule_row_warnings concat_map_if)

lemma rule_findings_itar:
  "as_table file = Inr df \<Longrightarrow>
   with_rule ''ITAR-BOM-001'' (findings (fst (validate_document now file ''bom'' s))) =
     map (\<lambda>ir. itar_bom_001 (fst ir)
                (str_get (columns df) (snd ir) (part_col (find_columns df)) ''Unknown''))
       (filter (\<lambda>ir. itar_part_row (columns df) (find_columns df) (snd ir))
          (List.enumerate 0 (rows df)))"
  by (simp add: findings_bom with_rule_append with_rule_concat row_violations_no_itar
      with_rule_row_warnings concat_map_if)

lemma rule_findings_sup:
  "as_table file = Inr df \<Longrightarrow>
   with_rule ''AS9100-SUP-001'' (findings (fst (validate_document now file ''bom'' s))) =
     map (\<lambda>ir. as9100_sup_001 (fst ir)
                (str_get (columns df) (snd ir) (supplier_col (find_columns df)) []))
       (filter (\<lambda>ir. uncertified_supplier_row (columns df) (find_columns df) (snd ir))
          (List.enumerate 0 (rows df)))"
  by (simp add: findings_bom with_rule_append with_rule_concat with_rule_row_violations
      with_rule_row_warnings concat_map_if)

lemma row_locations:
  "location (itar_bom_001 i p) = Some (''Row '' @ str_nat (Suc i + 1))"
  "location (as9100_mat_002 i m p) = Some (''Row '' @ str_nat (Suc i + 1) @ '', Part: '' @ p)"
  "location (as9100_sup_001 i v) = Some (''Row '' @ str_nat (Suc i + 1))"
  "location (as9100_data_001 i) = Some (''Row '' @ str_nat (Suc i + 1))"
  by (simp_all add: itar_bom_001_def as9100_mat_002_def as9100_sup_001_def as9100_data_001_def
      row_label_def)

text \<open>
  Claim C7: on a decoded bill of materials each of the four checks of the loop body fires
  exactly once for each row on which its condition holds, and not otherwise: the findings
  of a rule are, in order, one finding for each such row. The location of a finding for
  the row at position \<open>i + 1\<close> (the index \<open>i\<close> counts from 0) names row \<open>i + 1 + 1\<close>, one
  more for the header; after it rule AS9100-MAT-002 adds the part number. In five rows of
  which the second and the fourth lack their part number, rule AS9100-DATA-001 gives two
  findings, at \<open>Row 3\<close> and \<open>Row 5\<close>.
\<close>

theorem row_rule_fires_once_per_row:
  assumes "as_table file = Inr df"
  shows "with_rule ''ITAR-BOM-001'' (findings (fst (validate_document now file ''bom'' s))) =
           map (\<lambda>ir. itar_bom_001 (fst ir)
                      (str_get (columns df) (snd ir) (part_col (find_columns df)) ''Unknown''))
             (filter (\<lambda>ir. itar_part_row (columns df) (find_columns df) (snd ir))
                (List.enumerate 0 (rows df))) \<and>
         with_rule ''AS9100-MAT-002'' (findings (fst (validate_document now file ''bom'' s))) =
           map (\<lambda>ir. as9100_mat_002 (fst ir)
                      (upper (str_get (columns df) (snd ir) (material_col (find_columns df)) []))
                      (str_get (columns df) (snd ir) (part_col (find_columns df)) ''Unknown''))
             (filter (\<lambda>ir. restricted_material_row (columns df) (find_columns df) (snd ir))
                (List.enumerate 0 (rows df))) \<and>
         with_rule ''AS9100-SUP-001'' (findings (fst (validate_document now file ''bom'' s))) =
           map (\<lambda>ir. as9100_sup_001 (fst ir)
                      (str_get (columns df) (snd ir) (supplier_col (find_columns df)) []))
             (filter (\<lambda>ir. uncertified_supplier_row (columns df) (find_columns df) (snd ir))
                (List.enumerate 0 (rows df))) \<and>
         with_rule ''AS9100-DATA-001'' (findings (fst (validate_document now file ''bom'' s))) =
           map (\<lambda>ir. as9100_data_001 (fst ir))
             (filter (\<lambda>ir. missing_part_row (columns df) (find_columns df) (snd ir))
                (List.enumerate 0 (rows df))) \<and>
         location (itar_bom_001 i p) = Some (''Row '' @ str_nat (Suc i + 1)) \<and>
         location (as9100_mat_002 i m p) = Some (''Row '' @ str_nat (Suc i + 1) @ '', Part: '' @ p) \<and>
         location (as9100_sup_001 i v) = Some (''Row '' @ str_nat (Suc i + 1)) \<and>
         location (as9100_data_001 i) = Some (''Row '' @ str_nat (Suc i + 1))"
  using rule_findings_itar [OF assms] rule_findings_mat [OF assms] rule_findings_sup [OF assms]
    rule_findings_data [OF assms] row_locations
  by blast

lemma five_rows_cols:
  "find_columns \<lparr>columns = [''Part Number'', ''Qty''], rows = rs\<rparr> =
     \<lparr>part_col = Some ''Part Number'', material_col = None, supplier_col = None\<rparr>"
  by code_simp

theorem row_rule_fires_once_per_row_witness:
  "with_rule ''AS9100-DATA-001'' (findings (fst (validate_document ''2025-01-01T00:00:00'' bom_five_rows ''bom'' init))) =
     [as9100_data_001 1, as9100_data_001 3] \<and>
   map location [as9100_data_001 1, as9100_data_001 3] = [Some ''Row 3'', Some ''Row 5'']"
proof -
  let ?df = "\<lparr>columns = [''Part Number'', ''Qty''],
               rows = [[Val ''P-100'', Val ''4''], [NaN, Val ''2''], [Val ''P-300'', Val ''1''],
                       [NaN, Val ''8''], [Val ''P-500'', Val ''6'']]\<rparr>"
  have table: "as_table bom_five_rows = Inr ?df"
    by (simp add: bom_five_rows_def)
  have fired: "map (\<lambda>ir. as9100_data_001 (fst ir))
      (filter (\<lambda>ir. missing_part_row (columns ?df) (find_columns ?df) (snd ir))
         (List.enumerate 0 (rows ?df))) = [as9100_data_001 1, as9100_data_001 3]"
    by code_simp
  have loc: "map location [as9100_data_001 1, as9100_data_001 3] = [Some ''Row 3'', Some ''Row 5'']"
    by code_simp
  from row_rule_fires_once_per_row [OF table, of "''2025-01-01T00:00:00''" init]
  have "with_rule ''AS9100-DATA-001'' (findings (fst (validate_document ''2025-01-01T00:00:00'' bom_five_rows ''bom'' init))) =
      map (\<lambda>ir. as9100_data_001 (fst ir))
        (filter (\<lambda>ir. missing_part_row (columns ?df) (find_columns ?df) (snd ir))
           (List.enumerate 0 (rows ?df)))"
    by blast
  with fired loc show ?thesis
    by (simp only:)
qed

section \<open>The order of the findings\<close>

text \<open>
  Claim C4 says that the findings come in the order of the rules, all findings of one rule
  before all findings of the next. The loop runs over the rows and applies the four checks
  to each row in turn. In the loop body the material check (AS9100-MAT-002) comes before
  the check for a missing part number (AS9100-DATA-001), as a row that fires both shows;
  yet on two rows, the first without part number and the second of cadmium, the finding
  of AS9100-DATA-001 for the first row precedes that of AS9100-MAT-002 for the second.
\<close>

theorem later_rule_before_earlier_rule_counterexample:
  "map rule
     (report_violations (fst (validate_document ''2025-01-01T00:00:00'' bom_two_rows ''bom'' init))) =
   [''AS9100-DATA-001'', ''AS9100-MAT-002''] \<and>
   map location
     (report_violations (fst (validate_document ''2025-01-01T00:00:00'' bom_two_rows ''bom'' init))) =
   [Some ''Row 2'', Some ''Row 3, Part: P-100''] \<and>
   map rule (row_violations [''Part Number'', ''Material'']
     (find_columns \<lparr>columns = [''Part Number'', ''Material''], rows = []\<rparr>) (0, [NaN, Val ''Cadmium''])) =
   [''AS9100-MAT-002'', ''AS9100-DATA-001'']"
proof -
  let ?df = "\<lparr>columns = [''Part Number'', ''Material''],
               rows = [[NaN, NaN], [Val ''P-100'', Val ''Cadmium'']]\<rparr>"
  have table: "as_table bom_two_rows = Inr ?df"
    by (simp add: bom_two_rows_def)
  have "map rule
      (concat (map (row_violations (columns ?df) (find_columns ?df)) (List.enumerate 0 (rows ?df)))) =
    [''AS9100-DATA-001'', ''AS9100-MAT-002'']"
    by code_simp
  moreover have "map location
      (concat (map (row_violations (columns ?df) (find_columns ?df)) (List.enumerate 0 (rows ?df)))) =
    [Some ''Row 2'', Some ''Row 3, Part: P-100'']"
    by code_simp
  moreover have "map rule (row_violations [''Part Number'', ''Material'']
     (find_columns \<lparr>columns = [''Part Number'', ''Material''], rows = []\<rparr>) (0, [NaN, Val ''Cadmium''])) =
   [''AS9100-MAT-002'', ''AS9100-DATA-001'']"
    by code_simp
  ultimately show ?thesis
    by (simp only: report_bom_violations [OF table])
qed

text \<open>
  Claim C4, amended: on a decoded bill of materials the findings are appended in the order
  of the rows, and within one row in the order of the checks: the violations are the
  findings of the first row, then those of the second, and so on, in each row the finding
  of AS9100-MAT-002 before that of AS9100-DATA-001; the warnings likewise, in each row the
  finding of ITAR-BOM-001 before that of AS9100-SUP-001. The report is a function of the
  decoded file, so the same input gives the same order.
\<close>

theorem findings_in_row_order:
  assumes "as_table file = Inr df"
  shows "report_violations (fst (validate_document now file ''bom'' s)) =
           concat (map (row_violations (columns df) (find_columns df)) (List.enumerate 0 (rows df))) \<and>
         report_warnings (fst (validate_document now file ''bom'' s)) =
           concat (map (row_warnings (columns df) (find_columns df)) (List.enumerate 0 (rows df))) \<and>
         row_violations (columns df) (find_columns df) (i, row) =
           (if restricted_material_row (columns df) (find_columns df) row
            then [as9100_mat_002 i (upper (str_get (columns df) row (material_col (find_columns df)) []))
                    (str_get (columns df) row (part_col (find_columns df)) ''Unknown'')] else []) @
           (if missing_part_row (columns df) (find_columns df) row then [as9100_data_001 i] else []) \<and>
         row_warnings (columns df) (find_columns df) (i, row) =
           (if itar_part_row (columns df) (find_columns df) row
            then [itar_bom_001 i (str_get (columns df) row (part_col (find_columns df)) ''Unknown'')] else []) @
           (if uncertified_supplier_row (columns df) (find_columns df) row
            then [as9100_sup_001 i (str_get (columns df) row (supplier_col (find_columns df)) [])] else [])"
  using report_bom_violations [OF assms] report_bom_warnings [OF assms]
  by (simp add: row_violations_eq row_warnings_eq)

theorem findings_in_row_order_witness:
  "report_violations (fst (validate_document ''2025-01-01T00:00:00'' bom_two_rows ''bom'' init)) =
     [as9100_data_001 0, as9100_mat_002 1 ''CADMIUM'' ''P-100''] \<and>
   report_warnings (fst (validate_document ''2025-01-01T00:00:00'' bom_two_rows ''bom'' init)) =
     [itar_bom_001 0 ''nan'']"
proof -
  let ?df = "\<lparr>columns = [''Part Number'', ''Material''],
               rows = [[NaN, NaN], [Val ''P-100'', Val ''Cadmium'']]\<rparr>"
  have table: "as_table bom_two_rows = Inr ?df"
    by (simp add: bom_two_rows_def)
  have v: "concat (map (row_violations (columns ?df) (find_columns ?df)) (List.enumerate 0 (rows ?df))) =
      [as9100_data_001 0, as9100_mat_002 1 ''CADMIUM'' ''P-100'']"
    by code_simp
  have w: "concat (map (row_warnings (columns ?df) (find_columns ?df)) (List.enumerate 0 (rows ?df))) =
      [itar_bom_001 0 ''nan'']"
    by code_simp
  from findings_in_row_order [OF table, of "''2025-01-01T00:00:00''" init]
  have "report_violations (fst (validate_document ''2025-01-01T00:00:00'' bom_two_rows ''bom'' init)) =
           concat (map (row_violations (columns ?df) (find_columns ?df)) (List.enumerate 0 (rows ?df)))"
    and "report_warnings (fst (validate_document ''2025-01-01T00:00:00'' bom_two_rows ''bom'' init)) =
           concat (map (row_warnings (columns ?df) (find_columns ?df)) (List.enumerate 0 (rows ?df)))"
    by blast+
  with v w show ?thesis
    by (simp only:)
qed

section \<open>Row labels name one row\<close>

lemma digit_char_is_digit: "is_digit (digit_char d)"
  unfolding is_digit_def digit_char_def by (rule nth_mem) simp

lemma digit_char_inj: "a < 10 \<Longrightarrow> b < 10 \<Longrightarrow> digit_char a = digit_char b \<Longrightarrow> a = b"
proof -
  assume a: "a < 10" and b: "b < 10" and eq: "digit_char a = digit_char b"
  have d: "distinct ''0123456789''" by simp
  from a b eq have "''0123456789'' ! a = ''0123456789'' ! b"
    by (simp add: digit_char_def)
  with d a b show "a = b"
    by (simp add: nth_eq_iff_index_eq)
qed

lemma str_nat_digits: "list_all is_digit (str_nat n)"
proof (induction n rule: str_nat.induct)
  case (1 n)
  show ?case
  proof (cases "n < 10")
    case True
    then show ?thesis by (simp add: str_nat.simps [of n] digit_char_is_digit)
  next
    case False
    with "1" show ?thesis by (simp add: str_nat.simps [of n] digit_char_is_digit)
  qed
qed

lemma str_nat_nonempty: "str_nat n \<noteq> []"
  by (simp add: str_nat.simps [of n])

lemma str_nat_inj: "str_nat n = str_nat m \<Longrightarrow> n = m"
proof (induction n arbitrary: m rule: str_nat.induct)
  case (1 n)
  show ?case
  proof (cases "n < 10")
    case True
    with "1.prems" have one: "str_nat m = [digit_char n]"
      by (simp add: str_nat.simps [of n])
    have "m < 10"
    proof (rule ccontr)
      assume "\<not> m < 10"
      with one have "str_nat (m div 10) @ [digit_char (m mod 10)] = [digit_char n]"
        by (simp add: str_nat.simps [of m])
      then show False by (simp add: str_nat_nonempty)
    qed
    with one have "digit_char m = digit_char n"
      by (simp add: str_nat.simps [of m])
    with True \<open>m < 10\<close> show ?thesis by (simp add: digit_char_inj)
  next
    case False
    with "1.prems" have two: "str_nat m = str_nat (n div 10) @ [digit_char (n mod 10)]"
      by (simp add: str_nat.simps [of n])
    have "\<not> m < 10"
    proof
      assume "m < 10"
      with two have "[digit_char m] = str_nat (n div 10) @ [digit_char (n mod 10)]"
        by (simp add: str_nat.simps [of m])
      then have "str_nat (n div 10) = []" by simp
      then show False by (simp add: str_nat_nonempty)
    qed
    with two have "str_nat (m div 10) @ [digit_char (m mod 10)] =
        str_nat (n div 10) @ [digit_char (n mod 10)]"
      by (simp add: str_nat.simps [of m])
    then have "str_nat (n div 10) = str_nat (m div 10)" and "digit_char (n mod 10) = digit_char (m mod 10)"
      by simp_all
    with "1.IH" [OF False] have "n div 10 = m div 10" and "n mod 10 = m mod 10"
      by (simp_all add: digit_char_inj)
    then show ?thesis
      by (metis div_mult_mod_eq)
  qed
qed

lemma digits_append_eq:
  assumes "list_all is_digit a" and "list_all is_digit b"
    and "\<not> is_digit x" and "a @ x # xs = b @ x # ys"
  shows "a = b"
proof -
  have "takeWhile is_digit (a @ x # xs) = a"
    using assms(1,3) by (simp add: takeWhile_append2 list_all_iff)
  moreover have "takeWhile is_digit (b @ x # ys) = b"
    using assms(2,3) by (simp add: takeWhile_append2 list_all_iff)
  ultimately show ?thesis
    using assms(4) by simp
qed

lemma row_part_location_inj:
  assumes "row_label i @ '', Part: '' @ p = row_label j @ '', Part: '' @ q"
  shows "i = j"
proof -
  have "\<not> is_digit CHR '',''"
    by (simp add: is_digit_def)
  with assms have "str_nat (i + 2) = str_nat (j + 2)"
    using digits_append_eq [of "str_nat (i + 2)" "str_nat (j + 2)" "CHR '',''"
        "'' Part: '' @ p" "'' Part: '' @ q"]
    by (simp add: row_label_def str_nat_digits)
  then show ?thesis
    using str_nat_inj by fastforce
qed

lemma filter_enumerate_index:
  "filter (\<lambda>ir. fst ir = i) (List.enumerate k rs) =
     (if k \<le> i \<and> i < k + length rs then [(i, rs ! (i - k))] else [])"
proof (induction rs arbitrary: k)
  case Nil
  then show ?case by simp
next
  case (Cons r rs)
  have "filter (\<lambda>ir. fst ir = i) (List.enumerate (Suc k) rs) =
      (if Suc k \<le> i \<and> i < Suc k + length rs then [(i, rs ! (i - Suc k))] else [])"
    by (rule Cons.IH)
  then show ?case
    by (cases "i = k") (auto simp: nth_Cons' Suc_diff_le)
qed

section \<open>Restricted materials in a bill of materials\<close>

lemma upper_lower_char: "upper_char (lower_char c) = upper_char c"
  by (simp add: lower_char_def upper_char_def upper_letters_def lower_letters_def)

lemma upper_upper_char: "upper_char (upper_char c) = upper_char c"
  by (simp add: upper_char_def upper_letters_def lower_letters_def)

lemma upper_lower: "upper (lower s) = upper s"
  by (simp add: upper_def lower_def upper_lower_char)

lemma upper_upper: "upper (upper s) = upper s"
  by (simp add: upper_def upper_upper_char)

lemma sublist_map: "sublist a b \<Longrightarrow> sublist (map f a) (map f b)"
proof -
  assume "sublist a b"
  then obtain ps ss where "b = ps @ a @ ss"
    by (auto simp: sublist_def)
  then have "map f b = map f ps @ map f a @ map f ss"
    by simp
  then show ?thesis
    unfolding sublist_def by blast
qed

lemma sublist_upper: "sublist (lower k) (lower m) \<Longrightarrow> sublist (upper k) (upper m)"
  using sublist_map [of "lower k" "lower m" upper_char] upper_lower [of k] upper_lower [of m]
  by (simp add: upper_def)

lemma restricted_bom_upper: "k \<in> set restricted_bom \<Longrightarrow> upper k = k"
  by (auto simp: restricted_bom_def upper_def upper_char_def upper_letters_def lower_letters_def)

lemma filter_rule_location:
  "filter (\<lambda>f. rule f = r \<and> location f = l) fs = filter (\<lambda>f. location f = l) (with_rule r fs)"
  by (simp add: with_rule_def conj_commute)

text \<open>
  Claim C9: take a row of a decoded bill of materials whose material cell, under the
  material column \<open>c\<close> that was found, holds a value \<open>m\<close> that contains one of the
  restricted materials of \<open>_is_restricted_material\<close> as a substring, letter case ignored.
  Then among all findings of the report exactly one has rule AS9100-MAT-002 and the
  location of that row, \<open>Row i+2, Part: \<dots>\<close>, and its severity is High.
\<close>

theorem restricted_material_one_finding:
  assumes table: "as_table file = Inr df"
    and row: "i < length (rows df)"
    and col: "material_col (find_columns df) = Some c"
    and cell: "row_get (columns df) (rows df ! i) (Some c) = Some (Val m)"
    and k: "k \<in> {''BERYLLIUM'', ''CADMIUM'', ''MERCURY'', ''LEAD'', ''CHROMIUM VI'', ''ASBESTOS''}"
    and sub: "sublist (lower k) (lower m)"
  shows "filter (\<lambda>f. rule f = ''AS9100-MAT-002'' \<and>
                     location f = Some (row_label i @ '', Part: '' @
                       str_get (columns df) (rows df ! i) (part_col (find_columns df)) ''Unknown''))
           (findings (fst (validate_document now file ''bom'' s))) =
         [as9100_mat_002 i (upper m)
            (str_get (columns df) (rows df ! i) (part_col (find_columns df)) ''Unknown'')] \<and>
         severity (as9100_mat_002 i (upper m)
            (str_get (columns df) (rows df ! i) (part_col (find_columns df)) ''Unknown'')) = HIGH"
proof -
  let ?cols = "columns df" and ?cs = "find_columns df"
  let ?rs = "List.enumerate 0 (rows df)"
  let ?part = "\<lambda>row. str_get ?cols row (part_col ?cs) ''Unknown''"
  let ?g = "\<lambda>ir. as9100_mat_002 (fst ir) (upper (str_get ?cols (snd ir) (material_col ?cs) []))
             (?part (snd ir))"
  let ?fires = "\<lambda>ir. restricted_material_row ?cols ?cs (snd ir)"
  let ?l = "Some (row_label i @ '', Part: '' @ ?part (rows df ! i))"
  have material: "str_get ?cols (rows df ! i) (material_col ?cs) [] = m"
    using col cell by (simp add: str_get_def str_cell_def)
  from k have k': "k \<in> set restricted_bom"
    by (simp add: restricted_bom_def)
  from sub have "sublist (upper k) (upper m)"
    by (rule sublist_upper)
  with k' have "is_restricted_material (upper m)"
    by (auto simp: is_restricted_material_def any_keyword_def list_ex_iff upper_upper
        restricted_bom_upper)
  with col cell material_col_truthy [OF col] have fires: "?fires (i, rows df ! i)"
    by (simp add: restricted_material_row_def material [unfolded col] notna_def isna_def)
  have index: "filter (\<lambda>ir. fst ir = i) ?rs = [(i, rows df ! i)]"
    using row by (simp add: filter_enumerate_index)
  have "filter (\<lambda>ir. location (?g ir) = ?l) (filter ?fires ?rs) =
        filter (\<lambda>ir. fst ir = i) (filter ?fires ?rs)"
  proof (rule filter_cong [OF refl])
    fix ir assume "ir \<in> set (filter ?fires ?rs)"
    then have mem: "ir \<in> set ?rs" by simp
    show "(location (?g ir) = ?l) = (fst ir = i)"
    proof
      assume "location (?g ir) = ?l"
      then have "row_label (fst ir) @ '', Part: '' @ ?part (snd ir) =
                 row_label i @ '', Part: '' @ ?part (rows df ! i)"
        by (simp add: as9100_mat_002_def)
      then show "fst ir = i" by (rule row_part_location_inj)
    next
      assume eq: "fst ir = i"
      obtain a b where ir: "ir = (a, b)"
        by (cases ir)
      from mem ir have "b = rows df ! a"
        by (simp add: in_set_enumerate_eq)
      with eq ir show "location (?g ir) = ?l"
        by (simp add: as9100_mat_002_def)
    qed
  qed
  also have "\<dots> = filter ?fires (filter (\<lambda>ir. fst ir = i) ?rs)"
    by (simp add: conj_commute)
  also have "\<dots> = [(i, rows df ! i)]"
    using fires by (simp add: index)
  finally have one: "filter (\<lambda>ir. location (?g ir) = ?l) (filter ?fires ?rs) = [(i, rows df ! i)]" .
  have "filter (\<lambda>f. rule f = ''AS9100-MAT-002'' \<and> location f = ?l)
          (findings (fst (validate_document now file ''bom'' s))) =
        filter (\<lambda>f. location f = ?l) (map ?g (filter ?fires ?rs))"
    by (simp only: filter_rule_location rule_findings_mat [OF table])
  also have "\<dots> = map ?g (filter (\<lambda>ir. location (?g ir) = ?l) (filter ?fires ?rs))"
    by (simp only: filter_map comp_def)
  also have "\<dots> = [as9100_mat_002 i (upper m) (?part (rows df ! i))]"
    by (simp only: one) (simp add: material)
  finally show ?thesis
    by (simp add: as9100_mat_002_def)
qed

theorem restricted_material_one_finding_witness:
  "filter (\<lambda>f. rule f = ''AS9100-MAT-002'' \<and> location f = Some ''Row 3, Part: P-200'')
     (findings (fst (validate_document ''2025-01-01T00:00:00'' bom_cadmium ''bom'' init))) =
   [as9100_mat_002 1 ''CADMIUM PLATING 0.002IN'' ''P-200''] \<and>
   severity (as9100_mat_002 1 ''CADMIUM PLATING 0.002IN'' ''P-200'') = HIGH"
proof -
  let ?df = "\<lparr>columns = [''Part Number'', ''Material''],
               rows = [[Val ''P-100'', Val ''Steel 4130''],
                       [Val ''P-200'', Val ''Cadmium Plating 0.002in'']]\<rparr>"
  have table: "as_table bom_cadmium = Inr ?df"
    by (simp add: bom_cadmium_def)
  have row: "1 < length (rows ?df)"
    by simp
  have col: "material_col (find_columns ?df) = Some ''Material''"
    by code_simp
  have cell: "row_get (columns ?df) (rows ?df ! 1) (Some ''Material'') = Some (Val ''Cadmium Plating 0.002in'')"
    by code_simp
  have k: "''CADMIUM'' \<in> {''BERYLLIUM'', ''CADMIUM'', ''MERCURY'', ''LEAD'', ''CHROMIUM VI'', ''ASBESTOS''}"
    by simp
  have sub: "sublist (lower ''CADMIUM'') (lower ''Cadmium Plating 0.002in'')"
    by code_simp
  have part: "str_get (columns ?df) (rows ?df ! 1) (part_col (find_columns ?df)) ''Unknown'' = ''P-200''"
    by code_simp
  have loc: "row_label 1 @ '', Part: '' @ ''P-200'' = ''Row 3, Part: P-200''"
    by code_simp
  have up: "upper ''Cadmium Plating 0.002in'' = ''CADMIUM PLATING 0.002IN''"
    by code_simp
  from restricted_material_one_finding [OF table row col cell k sub, of "''2025-01-01T00:00:00''" init]
  show ?thesis
    unfolding part loc up .
qed

section \<open>Letter case in the text of a drawing\<close>

lemma report_drawing_violations:
  assumes "extract_pdf_text (as_pdf file) = Inr text"
  shows "report_violations (fst (validate_document now file ''drawing'' s)) =
     (if check_itar_marking text then [] else [itar_001]) @
     map as9100_mat_001 (check_restricted_materials text) @
     (if check_traceability text then [] else [as9100_trace_001])"
proof -
  from assms obtain pages where "as_pdf file = Inr pages"
    and "text = concat (map (\<lambda>page. page @ [CHR 0x0A]) pages)"
    by (auto simp: extract_pdf_text_def split: sum.splits)
  then show ?thesis
    by (simp add: validate_document_def generate_report_def Let_def drawing_violations)
qed

lemma report_drawing_warnings:
  assumes "extract_pdf_text (as_pdf file) = Inr text"
  shows "report_warnings (fst (validate_document now file ''drawing'' s)) =
     (if check_revision_marking text then [] else [as9100_doc_002])"
proof -
  from assms obtain pages where "as_pdf file = Inr pages"
    and "text = concat (map (\<lambda>page. page @ [CHR 0x0A]) pages)"
    by (auto simp: extract_pdf_text_def split: sum.splits)
  then show ?thesis
    by (simp add: validate_document_def generate_report_def Let_def drawing_warnings)
qed

lemma rev_mixed_text: "extract_pdf_text (as_pdf drawing_rev_mixed) = Inr (''Rev A: Itar data'' @ [CHR 0x0A])"
  by (simp add: drawing_rev_mixed_def extract_pdf_text_def)

lemma rev_upper_text: "extract_pdf_text (as_pdf drawing_rev_upper) = Inr (''REV A: ITAR DATA'' @ [CHR 0x0A])"
  by (simp add: drawing_rev_upper_def extract_pdf_text_def)

text \<open>
  Claim C8 says that every flag read off the text of a drawing ignores letter case. The
  revision check searches the text, as it is, for three regular expressions that fix the
  case of their letters: \<open>Rev A\<close> matches the first and \<open>REV A\<close> matches none. Two texts
  that differ in letter case only give different revision flags and different warnings.
\<close>

theorem revision_mark_case_sensitive_counterexample:
  "lower (''Rev A: Itar data'' @ [CHR 0x0A]) = lower (''REV A: ITAR DATA'' @ [CHR 0x0A]) \<and>
   check_revision_marking (''Rev A: Itar data'' @ [CHR 0x0A]) \<and>
   \<not> check_revision_marking (''REV A: ITAR DATA'' @ [CHR 0x0A]) \<and>
   report_warnings (fst (validate_document ''2025-01-01T00:00:00'' drawing_rev_mixed ''drawing'' init)) = [] \<and>
   report_warnings (fst (validate_document ''2025-01-01T00:00:00'' drawing_rev_upper ''drawing'' init)) =
     [as9100_doc_002]"
proof -
  have same: "lower (''Rev A: Itar data'' @ [CHR 0x0A]) = lower (''REV A: ITAR DATA'' @ [CHR 0x0A])"
    by code_simp
  have mixed: "check_revision_marking (''Rev A: Itar data'' @ [CHR 0x0A])"
    by code_simp
  have upper: "\<not> check_revision_marking (''REV A: ITAR DATA'' @ [CHR 0x0A])"
    by code_simp
  show ?thesis
    using same mixed upper
    by (simp only: report_drawing_warnings [OF rev_mixed_text] report_drawing_warnings [OF rev_upper_text]
        if_True if_False simp_thms)
qed

lemma any_keyword_lower_sublist:
  "k \<in> set keywords \<Longrightarrow> sublist (lower k) text_lower \<Longrightarrow> any_keyword_lower keywords text_lower"
  by (auto simp: any_keyword_lower_def list_ex_iff)

lemma sublist_lower: "sublist w text \<Longrightarrow> sublist (lower w) (lower text)"
  unfolding lower_def by (rule sublist_map)

lemma with_rule_drawing_violations:
  "with_rule ''ITAR-001''
     ((if b then [] else [itar_001]) @ map as9100_mat_001 ms @ (if t then [] else [as9100_trace_001])) =
   (if b then [] else [itar_001])"
  by (simp add: with_rule_def itar_001_def as9100_mat_001_def as9100_trace_001_def filter_map comp_def)

lemma with_rule_drawing_warnings:
  "with_rule ''ITAR-001'' (if b then [] else [as9100_doc_002]) = []"
  by (simp add: with_rule_def as9100_doc_002_def)

text \<open>
  Claim C8, amended: the export-marking flag, the traceability flag and the detection of
  restricted materials ignore letter case: two drawings whose texts differ in letter case
  only have the same flags, the same materials and the same violations. In particular a
  text that contains \<open>ITAR\<close> in any letter case sets the export-marking flag, and the
  report has no finding of rule ITAR-001. The revision flag is left out: it is matched
  with regular expressions that fix the case of their letters.
\<close>

theorem keyword_flags_case_insensitive:
  assumes ext: "extract_pdf_text (as_pdf file) = Inr text"
    and ext': "extract_pdf_text (as_pdf file') = Inr text'"
  shows "(lower text = lower text' \<longrightarrow>
            check_itar_marking text = check_itar_marking text' \<and>
            check_traceability text = check_traceability text' \<and>
            check_restricted_materials text = check_restricted_materials text' \<and>
            report_violations (fst (validate_document now file ''drawing'' s)) =
              report_violations (fst (validate_document now' file' ''drawing'' s'))) \<and>
         (lower w = lower ''ITAR'' \<and> sublist w text \<longrightarrow>
            check_itar_marking text \<and>
            with_rule ''ITAR-001'' (findings (fst (validate_document now file ''drawing'' s))) = [])"
proof (intro conjI impI)
  assume same: "lower text = lower text'"
  show itar: "check_itar_marking text = check_itar_marking text'"
    by (simp add: check_itar_marking_def same)
  show trace: "check_traceability text = check_traceability text'"
    by (simp add: check_traceability_def same)
  show mat: "check_restricted_materials text = check_restricted_materials text'"
    by (simp add: check_restricted_materials_def same)
  show "report_violations (fst (validate_document now file ''drawing'' s)) =
        report_violations (fst (validate_document now' file' ''drawing'' s'))"
    by (simp only: report_drawing_violations [OF ext] report_drawing_violations [OF ext'] itar trace mat)
next
  assume w: "lower w = lower ''ITAR'' \<and> sublist w text"
  then have "sublist (lower ''ITAR'') (lower text)"
    using sublist_lower [of w "text"] by simp
  then show marked: "check_itar_marking text"
    unfolding check_itar_marking_def
    by (rule any_keyword_lower_sublist [rotated]) (simp add: itar_keywords_def)
  have v: "with_rule ''ITAR-001'' (report_violations (fst (validate_document now file ''drawing'' s))) = []"
    unfolding report_drawing_violations [OF ext] with_rule_drawing_violations
    using marked by simp
  have w: "with_rule ''ITAR-001'' (report_warnings (fst (validate_document now file ''drawing'' s))) = []"
    unfolding report_drawing_warnings [OF ext] by (rule with_rule_drawing_warnings)
  show "with_rule ''ITAR-001'' (findings (fst (validate_document now file ''drawing'' s))) = []"
    by (simp add: findings_def with_rule_append v w)
qed

theorem keyword_flags_case_insensitive_witness:
  "check_itar_marking (''Rev A: Itar data'' @ [CHR 0x0A]) =
     check_itar_marking (''REV A: ITAR DATA'' @ [CHR 0x0A]) \<and>
   report_violations (fst (validate_document ''2025-01-01T00:00:00'' drawing_rev_mixed ''drawing'' init)) =
     report_violations (fst (validate_document ''2025-01-01T00:00:00'' drawing_rev_upper ''drawing'' init)) \<and>
   check_itar_marking (''Rev A: Itar data'' @ [CHR 0x0A]) \<and>
   with_rule ''ITAR-001''
     (findings (fst (validate_document ''2025-01-01T00:00:00'' drawing_rev_mixed ''drawing'' init))) = []"
proof -
  have same: "lower (''Rev A: Itar data'' @ [CHR 0x0A]) = lower (''REV A: ITAR DATA'' @ [CHR 0x0A])"
    by code_simp
  have w: "lower ''Itar'' = lower ''ITAR'' \<and> sublist ''Itar'' (''Rev A: Itar data'' @ [CHR 0x0A])"
    by code_simp
  from keyword_flags_case_insensitive [OF rev_mixed_text rev_upper_text,
      where w = "''Itar''" and now = "''2025-01-01T00:00:00''" and s = init
        and now' = "''2025-01-01T00:00:00''" and s' = init] same w
  show ?thesis
    by blast
qed

section \<open>The rendering of the exposure\<close>

lemma bit_length_1: "bit_length (Suc 0) = 1"
  by (simp add: bit_length.simps [of "Suc 0"] bit_length.simps [of 0])

lemma format_1050000: "format_1f (double_of_ratio 1050000 1000000) = ''1.1''"
  by (simp add: double_of_ratio_def bit_length_1 format_1f_def round_half_even_def Let_def
      str_nat.simps [of "Suc 0"] digit_char_def)

lemma format_1250000: "format_1f (double_of_ratio 1250000 1000000) = ''1.2''"
  by (simp add: double_of_ratio_def bit_length_1 format_1f_def round_half_even_def Let_def
      str_nat.simps [of "Suc 0"] digit_char_def)

text \<open>
  Twenty-one violations: the quotient 1.05 is not a double, the nearest double is above it
  and prints as \<open>1.1\<close>. Twenty-five: 1.25 is a double, and the tie goes to the even digit.
\<close>

lemma risk_cost_21_violations:
  "calculate_risk_cost \<lparr>violations = replicate 21 f, warnings = [], risk_score = a, checked_items = b\<rparr> =
     ''$1.1M potential exposure''"
  by (simp add: calculate_risk_cost_def format_1050000)

lemma risk_cost_25_violations:
  "calculate_risk_cost \<lparr>violations = replicate 25 f, warnings = [], risk_score = a, checked_items = b\<rparr> =
     ''$1.2M potential exposure''"
  by (simp add: calculate_risk_cost_def format_1250000)

lemma risk_cost_over_million:
  assumes "1000000 < length (violations s) * 50000 + length (warnings s) * 5000"
  shows "\<exists>ds d. calculate_risk_cost s = ''$'' @ ds @ ''.'' @ [d] @ ''M potential exposure'' \<and>
           ds \<noteq> [] \<and> list_all is_digit ds \<and> is_digit d"
  using assms
  by (auto simp: calculate_risk_cost_def format_1f_def Let_def str_nat_digits str_nat_nonempty
      digit_char_is_digit)

lemma risk_cost_positive:
  assumes "0 < length (violations s) * 50000 + length (warnings s) * 5000"
    and "length (violations s) * 50000 + length (warnings s) * 5000 \<le> 1000000"
  shows "calculate_risk_cost s =
     ''$'' @ str_nat_commas (length (violations s) * 50000 + length (warnings s) * 5000) @
     '' potential exposure''"
  using assms by (simp add: calculate_risk_cost_def Let_def)

section \<open>The score of the compliance engine is another quantity\<close>

lemma foldl_deduct: "foldl (\<lambda>score x. score - k) (a::int) xs = a - k * int (length xs)"
  by (induction xs arbitrary: a) (simp_all add: algebra_simps)

lemma calculate_risk_score_eq:
  "calculate_risk_score vs ws = max 0 (100 - 15 * int (length vs) - 5 * int (length ws))"
  by (simp add: calculate_risk_score_def Let_def foldl_deduct)

lemma calculate_risk_score_7_violations: "calculate_risk_score (replicate 7 v) [] = 0"
  by (simp add: calculate_risk_score_eq)

section \<open>The matcher decides the language of the pattern\<close>

lemma nullable_lang: "nullable r \<longleftrightarrow> [] \<in> lang r"
  by (induction r) (auto intro: star_empty)

lemma star_cons:
  assumes "w \<in> star A" and "w = c # x"
  shows "\<exists>u v. x = u @ v \<and> c # u \<in> A \<and> v \<in> star A"
  using assms
proof (induction arbitrary: x rule: star.induct)
  case star_empty
  then show ?case by simp
next
  case (star_step u v)
  show ?case
  proof (cases u)
    case Nil
    with star_step show ?thesis by simp
  next
    case (Cons d u')
    with star_step.prems have "d = c" and "x = u' @ v"
      by simp_all
    with Cons star_step.hyps show ?thesis
      by blast
  qed
qed

lemma deriv_lang: "w \<in> lang (deriv c r) \<longleftrightarrow> c # w \<in> lang r"
proof (induction r arbitrary: w)
  case (Seq r s)
  show ?case
  proof
    assume "w \<in> lang (deriv c (Seq r s))"
    then consider (left) u v where "w = u @ v" "u \<in> lang (deriv c r)" "v \<in> lang s"
      | (right) "nullable r" "w \<in> lang (deriv c s)"
      by (auto split: if_splits)
    then show "c # w \<in> lang (Seq r s)"
    proof cases
      case left
      then have "c # w = (c # u) @ v" and "c # u \<in> lang r"
        by (simp_all add: Seq.IH)
      with left(3) show ?thesis by (simp del: append_Cons) blast
    next
      case right
      then have "[] \<in> lang r" and "c # w \<in> lang s"
        by (simp_all add: nullable_lang Seq.IH)
      then have "c # w = [] @ (c # w) \<and> [] \<in> lang r \<and> c # w \<in> lang s"
        by simp
      then show ?thesis by (simp del: append_Nil) blast
    qed
  next
    assume "c # w \<in> lang (Seq r s)"
    then obtain u v where uv: "c # w = u @ v" "u \<in> lang r" "v \<in> lang s"
      by auto
    show "w \<in> lang (deriv c (Seq r s))"
    proof (cases u)
      case Nil
      with uv have "nullable r" and "w \<in> lang (deriv c s)"
        by (simp_all add: nullable_lang Seq.IH)
      then show ?thesis by simp
    next
      case (Cons d u')
      with uv have "w = u' @ v" and "c # u' \<in> lang r"
        by simp_all
      then have "w = u' @ v" and "u' \<in> lang (deriv c r)"
        by (simp_all add: Seq.IH)
      with uv(3) show ?thesis by auto
    qed
  qed
next
  case (Star r)
  show ?case
  proof
    assume "w \<in> lang (deriv c (Star r))"
    then obtain u v where "w = u @ v" "c # u \<in> lang r" "v \<in> star (lang r)"
      by (auto simp: Star.IH)
    then have "(c # u) @ v \<in> star (lang r)" and "c # w = (c # u) @ v"
      by (simp_all add: star_step del: append_Cons)
    then show "c # w \<in> lang (Star r)" by simp
  next
    assume "c # w \<in> lang (Star r)"
    then obtain u v where "w = u @ v" "c # u \<in> lang r" "v \<in> star (lang r)"
      using star_cons [of "c # w" "lang r" c w] by auto
    then show "w \<in> lang (deriv c (Star r))"
      by (auto simp: Star.IH)
  qed
qed auto

lemma re_match_prefix_lang:
  "re_match_prefix r s \<longleftrightarrow> (\<exists>u v. s = u @ v \<and> u \<in> lang r)"
proof (induction s arbitrary: r)
  case Nil
  then show ?case by (simp add: nullable_lang)
next
  case (Cons c cs)
  show ?case
  proof
    assume "re_match_prefix r (c # cs)"
    then consider "[] \<in> lang r" | u v where "cs = u @ v" "c # u \<in> lang r"
      by (auto simp: nullable_lang Cons.IH deriv_lang)
    then show "\<exists>u v. c # cs = u @ v \<and> u \<in> lang r"
    proof cases
      case 1
      then have "c # cs = [] @ (c # cs) \<and> [] \<in> lang r" by simp
      then show ?thesis by blast
    next
      case 2
      then have "c # cs = (c # u) @ v \<and> c # u \<in> lang r" by simp
      then show ?thesis by blast
    qed
  next
    assume "\<exists>u v. c # cs = u @ v \<and> u \<in> lang r"
    then obtain u v where uv: "c # cs = u @ v" "u \<in> lang r"
      by blast
    show "re_match_prefix r (c # cs)"
    proof (cases u)
      case Nil
      with uv have "nullable r" by (simp add: nullable_lang)
      then show ?thesis by simp
    next
      case (Cons d u')
      with uv have "cs = u' @ v" and "c # u' \<in> lang r"
        by simp_all
      then have "cs = u' @ v" and "u' \<in> lang (deriv c r)"
        by (simp_all add: deriv_lang)
      then have "re_match_prefix (deriv c r) cs"
        unfolding Cons.IH by blast
      then show ?thesis by simp
    qed
  qed
qed

text \<open>\<open>re_search\<close> holds exactly when some piece of the text is in the language.\<close>

lemma re_search_lang:
  "re_search r s \<longleftrightarrow> (\<exists>p u v. s = p @ u @ v \<and> u \<in> lang r)"
proof (induction s)
  case Nil
  then show ?case by (simp add: nullable_lang)
next
  case (Cons c cs)
  show ?case
  proof
    assume "re_search r (c # cs)"
    then have "re_match_prefix r (c # cs) \<or> re_search r cs"
      by simp
    then consider u v where "c # cs = u @ v" "u \<in> lang r"
      | p u v where "cs = p @ u @ v" "u \<in> lang r"
      unfolding re_match_prefix_lang Cons.IH by blast
    then show "\<exists>p u v. c # cs = p @ u @ v \<and> u \<in> lang r"
    proof cases
      case 1
      then have "c # cs = [] @ u @ v \<and> u \<in> lang r" by simp
      then show ?thesis by blast
    next
      case 2
      then have "c # cs = (c # p) @ u @ v \<and> u \<in> lang r" by simp
      then show ?thesis by blast
    qed
  next
    assume "\<exists>p u v. c # cs = p @ u @ v \<and> u \<in> lang r"
    then obtain p u v where puv: "c # cs = p @ u @ v" "u \<in> lang r"
      by blast
    show "re_search r (c # cs)"
    proof (cases p)
      case Nil
      with puv have "\<exists>u v. c # cs = u @ v \<and> u \<in> lang r"
        by auto
      then have "re_match_prefix r (c # cs)"
        by (simp only: re_match_prefix_lang)
      then show ?thesis by (simp only: re_search.simps simp_thms)
    next
      case (Cons d p')
      with puv have "cs = p' @ u @ v" by simp
      with puv(2) have "re_search r cs"
        unfolding Cons.IH by blast
      then show ?thesis by (simp only: re_search.simps simp_thms)
    qed
  qed
qed

section \<open>Severity and the two lists\<close>

lemma row_violations_high: "f \<in> set (row_violations cols cs ir) \<Longrightarrow> severity f = HIGH"
  by (auto simp: row_violations_eq as9100_mat_002_def as9100_data_001_def split: if_splits)

lemma row_warnings_severity:
  "f \<in> set (row_warnings cols cs ir) \<Longrightarrow> severity f \<noteq> HIGH \<or> rule f = ''ITAR-BOM-001''"
  by (auto simp: row_warnings_eq itar_bom_001_def as9100_sup_001_def split: if_splits)

lemma report_other_doc_type:
  assumes "doc_type \<noteq> ''drawing''" and "doc_type \<noteq> ''bom''"
  shows "report_violations (fst (validate_document now file doc_type s)) = []"
    and "report_warnings (fst (validate_document now file doc_type s)) = []"
  using assms by (simp_all add: validate_document_def generate_report_def Let_def)

lemma extract_pdf_text_cases:
  obtains e where "as_pdf file = Inl e"
  | content where "extract_pdf_text (as_pdf file) = Inr content"
  by (cases "as_pdf file") (auto simp: extract_pdf_text_def)

text \<open>Every violation has severity High, whatever the document.\<close>

lemma violations_high:
  assumes "f \<in> set (report_violations (fst (validate_document now file doc_type s)))"
  shows "severity f = HIGH"
proof -
  consider (drawing) "doc_type = ''drawing''" | (bom) "doc_type = ''bom''"
    | (other) "doc_type \<noteq> ''drawing''" "doc_type \<noteq> ''bom''"
    by blast
  then show ?thesis
  proof cases
    case drawing
    show ?thesis
    proof (rule extract_pdf_text_cases [of "file"])
      fix e assume "as_pdf file = Inl e"
      with assms drawing show ?thesis
        by (simp add: report_drawing_failure)
    next
      fix content assume "extract_pdf_text (as_pdf file) = Inr content"
      with assms drawing show ?thesis
        by (auto simp: report_drawing_violations itar_001_def as9100_mat_001_def
            as9100_trace_001_def split: if_splits)
    qed
  next
    case bom
    show ?thesis
    proof (cases "as_table file")
      case (Inl e)
      with assms bom show ?thesis
        by (simp add: report_bom_failure)
    next
      case (Inr df)
      with assms bom show ?thesis
        by (auto simp: report_bom_violations dest: row_violations_high)
    qed
  next
    case other
    with assms show ?thesis
      by (simp add: report_other_doc_type)
  qed
qed

text \<open>Every warning but that of rule ITAR-BOM-001 has severity Medium or Low.\<close>

lemma warnings_not_high:
  assumes "f \<in> set (report_warnings (fst (validate_document now file doc_type s)))"
    and "rule f \<noteq> ''ITAR-BOM-001''"
  shows "severity f \<noteq> HIGH"
proof -
  consider (drawing) "doc_type = ''drawing''" | (bom) "doc_type = ''bom''"
    | (other) "doc_type \<noteq> ''drawing''" "doc_type \<noteq> ''bom''"
    by blast
  then show ?thesis
  proof cases
    case drawing
    show ?thesis
    proof (rule extract_pdf_text_cases [of "file"])
      fix e assume "as_pdf file = Inl e"
      with assms drawing show ?thesis
        by (simp add: report_drawing_failure system_drawing_def)
    next
      fix content assume "extract_pdf_text (as_pdf file) = Inr content"
      with assms drawing show ?thesis
        by (auto simp: report_drawing_warnings as9100_doc_002_def split: if_splits)
    qed
  next
    case bom
    show ?thesis
    proof (cases "as_table file")
      case (Inl e)
      with assms bom show ?thesis
        by (simp add: report_bom_failure system_bom_def)
    next
      case (Inr df)
      with assms bom show ?thesis
        by (auto simp: report_bom_warnings dest: row_warnings_severity)
    qed
  next
    case other
    with assms show ?thesis
      by (simp add: report_other_doc_type)
  qed
qed

text \<open>
  So, on a run without a finding of rule ITAR-BOM-001, the status is FAIL exactly when a
  finding has severity High, and the risk score weighs the High findings by 15 and the
  others by 5.
\<close>

lemma status_fail_iff_high:
  assumes "with_rule ''ITAR-BOM-001'' (findings (fst (validate_document now file doc_type s))) = []"
  shows "status (fst (validate_document now file doc_type s)) = ''FAIL'' \<longleftrightarrow>
         (\<exists>f \<in> set (findings (fst (validate_document now file doc_type s))). severity f = HIGH)"
proof -
  let ?r = "fst (validate_document now file doc_type s)"
  from assms have no_itar: "\<And>f. f \<in> set (report_warnings ?r) \<Longrightarrow> rule f \<noteq> ''ITAR-BOM-001''"
    by (auto simp: with_rule_def findings_def filter_empty_conv)
  have "(\<exists>f \<in> set (findings ?r). severity f = HIGH) \<longleftrightarrow> report_violations ?r \<noteq> []"
  proof
    assume "\<exists>f \<in> set (findings ?r). severity f = HIGH"
    then obtain f where "f \<in> set (findings ?r)" and high: "severity f = HIGH"
      by blast
    then have "f \<in> set (report_violations ?r)"
      using warnings_not_high [of f now "file" doc_type s] no_itar [of f]
      by (auto simp: findings_def)
    then show "report_violations ?r \<noteq> []" by auto
  next
    assume "report_violations ?r \<noteq> []"
    then obtain f where "f \<in> set (report_violations ?r)"
      by (cases "report_violations ?r") auto
    then show "\<exists>f \<in> set (findings ?r). severity f = HIGH"
      using violations_high [of f now "file" doc_type s] by (auto simp: findings_def)
  qed
  then show ?thesis
    by (simp add: report_status)
qed

lemma medium_low_length:
  assumes "\<And>f. f \<in> set fs \<Longrightarrow> severity f \<noteq> HIGH"
  shows "length (filter (\<lambda>f. severity f = MEDIUM) fs) +
         length (filter (\<lambda>f. severity f = LOW) fs) = length fs"
  using assms
proof (induction fs)
  case Nil
  then show ?case by simp
next
  case (Cons f fs)
  then have "severity f \<noteq> HIGH" by simp
  then consider "severity f = MEDIUM" | "severity f = LOW"
    by (cases "severity f") auto
  then show ?case
    using Cons by cases simp_all
qed

lemma count_severity_lists:
  assumes "with_rule ''ITAR-BOM-001'' (findings (fst (validate_document now file doc_type s))) = []"
  shows "count_severity HIGH (findings (fst (validate_document now file doc_type s))) =
           length (report_violations (fst (validate_document now file doc_type s)))"
    and "count_severity MEDIUM (findings (fst (validate_document now file doc_type s))) +
         count_severity LOW (findings (fst (validate_document now file doc_type s))) =
           length (report_warnings (fst (validate_document now file doc_type s)))"
proof -
  let ?r = "fst (validate_document now file doc_type s)"
  from assms have no_itar: "\<And>f. f \<in> set (report_warnings ?r) \<Longrightarrow> rule f \<noteq> ''ITAR-BOM-001''"
    by (auto simp: with_rule_def findings_def filter_empty_conv)
  have v: "\<And>f. f \<in> set (report_violations ?r) \<Longrightarrow> severity f = HIGH"
    by (rule violations_high)
  have w: "\<And>f. f \<in> set (report_warnings ?r) \<Longrightarrow> severity f \<noteq> HIGH"
    using warnings_not_high no_itar by blast
  have vh: "filter (\<lambda>f. severity f = HIGH) (report_violations ?r) = report_violations ?r"
    using v by (simp add: filter_id_conv)
  have wh: "filter (\<lambda>f. severity f = HIGH) (report_warnings ?r) = []"
    using w by (simp add: filter_empty_conv)
  show "count_severity HIGH (findings ?r) = length (report_violations ?r)"
    by (simp add: count_severity_def findings_def vh wh)
  have vm: "filter (\<lambda>f. severity f = MEDIUM) (report_violations ?r) = []"
    and vl: "filter (\<lambda>f. severity f = LOW) (report_violations ?r) = []"
    using v by (auto simp: filter_empty_conv)
  have "length (filter (\<lambda>f. severity f = MEDIUM) (report_warnings ?r)) +
        length (filter (\<lambda>f. severity f = LOW) (report_warnings ?r)) = length (report_warnings ?r)"
    using w by (intro medium_low_length) blast
  then show "count_severity MEDIUM (findings ?r) + count_severity LOW (findings ?r) =
      length (report_warnings ?r)"
    by (simp add: count_severity_def findings_def vm vl)
qed

lemma risk_score_by_severity:
  assumes "with_rule ''ITAR-BOM-001'' (findings (fst (validate_document now file doc_type s))) = []"
  shows "report_risk_score (fst (validate_document now file doc_type s)) =
     min 100 (15 * count_severity HIGH (findings (fst (validate_document now file doc_type s))) +
              5 * (count_severity MEDIUM (findings (fst (validate_document now file doc_type s))) +
                   count_severity LOW (findings (fst (validate_document now file doc_type s)))))"
  by (simp only: count_severity_lists [OF assms] report_risk_score_eq mult.commute)

end
